theory Spec2Isabelle
  imports Complex_Main
begin

section \<open>JavaScript values used by the pipeline\<close>

text \<open>
  The page bounds are JavaScript numbers produced by \<^verbatim>\<open>parseInt(s, 10)\<close>: an integer or
  \<^verbatim>\<open>NaN\<close>. Integers are modelled exactly (the rounding of values beyond \<open>2^53\<close> and the
  exponent notation of \<^verbatim>\<open>String(n)\<close> from \<open>10^21\<close> on are outside the model). Strings are
  lists of code units below 256.
\<close>

datatype jsnum = NaN | Num int

text \<open>Every comparison with \<^verbatim>\<open>NaN\<close> is false; \<^verbatim>\<open>!==\<close> is the negation of \<^verbatim>\<open>===\<close>.\<close>

fun js_lt :: "jsnum \<Rightarrow> jsnum \<Rightarrow> bool" where
  "js_lt (Num a) (Num b) = (a < b)"
| "js_lt _ _ = False"

fun js_gt :: "jsnum \<Rightarrow> jsnum \<Rightarrow> bool" where
  "js_gt (Num a) (Num b) = (a > b)"
| "js_gt _ _ = False"

fun js_strict_eq :: "jsnum \<Rightarrow> jsnum \<Rightarrow> bool" where
  "js_strict_eq (Num a) (Num b) = (a = b)"
| "js_strict_eq _ _ = False"

definition js_strict_neq :: "jsnum \<Rightarrow> jsnum \<Rightarrow> bool" where
  "js_strict_neq a b = (\<not> js_strict_eq a b)"

definition is_js_space :: "char \<Rightarrow> bool" where
  "is_js_space c =
     (c = CHR 0x09 \<or> c = CHR 0x0A \<or> c = CHR 0x0B \<or> c = CHR 0x0C \<or> c = CHR 0x0D \<or>
      c = CHR 0x20 \<or> c = CHR 0xA0)"

definition is_digit :: "char \<Rightarrow> bool" where
  "is_digit c = (48 \<le> (of_char c :: nat) \<and> (of_char c :: nat) \<le> 57)"

definition digit_value :: "char \<Rightarrow> nat" where
  "digit_value c = of_char c - 48"

definition digits_value :: "string \<Rightarrow> nat" where
  "digits_value ds = foldl (\<lambda>acc c. 10 * acc + digit_value c) 0 ds"

text \<open>
  \<^verbatim>\<open>parseInt(str, 10)\<close>: leading white space is skipped, one sign is read, then the longest
  run of decimal digits; no digit gives \<^verbatim>\<open>NaN\<close>.
\<close>

definition parseInt :: "string \<Rightarrow> jsnum" where
  "parseInt str =
     (let s = dropWhile is_js_space str;
          neg = (case s of [] \<Rightarrow> False | c # _ \<Rightarrow> c = CHR ''-'');
          s1 = (case s of [] \<Rightarrow> [] | c # cs \<Rightarrow> if c = CHR ''-'' \<or> c = CHR ''+'' then cs else s);
          z = takeWhile is_digit s1
      in if z = [] then NaN
         else Num (if neg then - int (digits_value z) else int (digits_value z)))"

definition digit_char :: "nat \<Rightarrow> char" where
  "digit_char d = ''0123456789'' ! d"

fun string_of_nat :: "nat \<Rightarrow> string" where
  "string_of_nat n =
     (if n < 10 then [digit_char n] else string_of_nat (n div 10) @ [digit_char (n mod 10)])"

declare string_of_nat.simps [simp del]

text \<open>\<^verbatim>\<open>String(n)\<close>, also what a template literal does with a number.\<close>

fun string_of_jsnum :: "jsnum \<Rightarrow> string" where
  "string_of_jsnum NaN = ''NaN''"
| "string_of_jsnum (Num n) =
     (if n < 0 then CHR ''-'' # string_of_nat (nat (- n)) else string_of_nat (nat n))"

section \<open>Errors, results and effects\<close>

text \<open>
  A thrown JavaScript error is its name and message. A call returns a value, throws, or ends
  the process with \<^verbatim>\<open>process.exit(code)\<close>.
\<close>

datatype error = Error (error_name: string) (error_message: string)

definition string_of_error :: "error \<Rightarrow> string" where
  "string_of_error e =
     (if error_name e = [] then error_message e
      else if error_message e = [] then error_name e
      else error_name e @ '': '' @ error_message e)"

datatype 'a result = Return 'a | Throw error | Exit int

text \<open>
  \<^verbatim>\<open>LLMClient.completion\<close> is declared to return a string, and returns whatever the
  \<^verbatim>\<open>text\<close> property of the first part holds: a string, or \<^verbatim>\<open>undefined\<close> when the property
  is absent. Appending \<^verbatim>\<open>undefined\<close> to a string appends the text \<^verbatim>\<open>undefined\<close>.
\<close>

datatype jsstr = Undefined | Str string

fun string_of_jsstr :: "jsstr \<Rightarrow> string" where
  "string_of_jsstr Undefined = ''undefined''"
| "string_of_jsstr (Str s) = s"

text \<open>The request of \<^verbatim>\<open>LLMClient.completion\<close>: URL, headers and JSON payload.\<close>

datatype content_item =
    TextItem string
  | ImageItem string string string
    \<comment> \<open>source type, media type, the file's bytes (sent base64-encoded)\<close>

datatype content = PlainString string | SingleItem content_item | ItemList "content_item list"

record message =
  role :: string
  content :: content

record request =
  url :: string
  content_type :: string
  authorization :: string
  payload_model :: string
  payload_messages :: "message list"
  payload_temperature :: rat
  payload_max_tokens :: int

text \<open>
  The response body, in the shape the client reads,
  \<^verbatim>\<open>{candidates: [{content: {parts: [{text}]}}]}\<close>, every level optional. \<open>None\<close> is an
  absent (or otherwise falsy) value at that level.
\<close>

datatype resp_part = Part (part_text: "string option")

datatype resp_content = Content (content_parts: "resp_part list option")

datatype candidate = Candidate (candidate_content: "resp_content option")

datatype response_data = Data (data_candidates: "candidate list option")

datatype http_result = HttpError error | HttpResponse "response_data option"

text \<open>
  A child process either fails to start (the \<^verbatim>\<open>error\<close> event) or closes with an exit
  code (\<^verbatim>\<open>null\<close>, here \<open>None\<close>, when a signal ended it) and what it wrote to its standard
  output.
\<close>

datatype proc_result = SpawnError error | Closed "int option" string

datatype event =
    Mkdir string
  | WriteFile string string
  | RmTree string
  | Spawn string "string list"
  | ReadDir string
  | ReadFile string
  | ConsoleInfo string
  | ConsoleLog string
  | ConsoleError string
  | HttpPost request
  | Sleep nat

text \<open>
  Everything the run reads from outside: the command line, standard input, the clock, the
  environment variables, the files present at the start, and what the child processes, the
  directory listing, the image reads and the HTTP endpoint answer. The image reads and the
  HTTP answers depend on the number of the client call, so that a retry can fare differently.
\<close>

record env =
  argv :: "string list"
  stdin_data :: string
  clock :: "nat \<Rightarrow> string"
  OPENAI_API_KEY :: "string option"
  OPENAI_API_BASE :: "string option"
  OPENAI_DEFAULT_MODEL :: "string option"
  initial_fs :: "string set"
  spawn_result :: "string \<Rightarrow> string list \<Rightarrow> proc_result"
  readdir_result :: "string \<Rightarrow> error + string list"
  read_file_result :: "nat \<Rightarrow> string \<Rightarrow> error + string"
  http_post_result :: "nat \<Rightarrow> request \<Rightarrow> http_result"

text \<open>
  The state of a run: the paths that exist (those present at the start and those this
  process creates; what a child process writes is its own business and reaches the run
  through the directory listing), the effects so far in order, the number of clock readings
  and the number of client calls.
\<close>

record world =
  fs :: "string set"
  trace :: "event list"
  ticks :: nat
  calls :: nat

datatype outcome = Exited int | Unhandled error

definition emit :: "event \<Rightarrow> world \<Rightarrow> world" where
  "emit e w = w\<lparr>trace := trace w @ [e]\<rparr>"

definition emit_all :: "event list \<Rightarrow> world \<Rightarrow> world" where
  "emit_all es w = w\<lparr>trace := trace w @ es\<rparr>"

text \<open>\<^verbatim>\<open>new Date().toISOString()\<close>.\<close>

definition now :: "env \<Rightarrow> world \<Rightarrow> string \<times> world" where
  "now env w = (clock env (ticks w), w\<lparr>ticks := Suc (ticks w)\<rparr>)"

abbreviation NL :: char where
  "NL \<equiv> CHR 0x0A"

text \<open>
  What the process wrote to its standard output and to its standard error. In Node.js
  \<^verbatim>\<open>console.info\<close> is \<^verbatim>\<open>console.log\<close>: both write their argument and a newline to standard
  output; \<^verbatim>\<open>console.error\<close> writes to standard error.
\<close>

fun stdout_of :: "event list \<Rightarrow> string" where
  "stdout_of [] = []"
| "stdout_of (ConsoleInfo s # es) = s @ [NL] @ stdout_of es"
| "stdout_of (ConsoleLog s # es) = s @ [NL] @ stdout_of es"
| "stdout_of (_ # es) = stdout_of es"

fun stderr_of :: "event list \<Rightarrow> string" where
  "stderr_of [] = []"
| "stderr_of (ConsoleError s # es) = s @ [NL] @ stderr_of es"
| "stderr_of (_ # es) = stderr_of es"

fun spawns_of :: "event list \<Rightarrow> (string \<times> string list) list" where
  "spawns_of [] = []"
| "spawns_of (Spawn prog args # es) = (prog, args) # spawns_of es"
| "spawns_of (_ # es) = spawns_of es"

fun posts_of :: "event list \<Rightarrow> request list" where
  "posts_of [] = []"
| "posts_of (HttpPost r # es) = r # posts_of es"
| "posts_of (_ # es) = posts_of es"

fun sleeps_of :: "event list \<Rightarrow> nat list" where
  "sleeps_of [] = []"
| "sleeps_of (Sleep ms # es) = ms # sleeps_of es"
| "sleeps_of (_ # es) = sleeps_of es"

section \<open>The logger\<close>

text \<open>
  \<^verbatim>\<open>String.prototype.replace\<close> with a string pattern: the first occurrence is replaced, and
  the replacement text is expanded (\<^verbatim>\<open>$$\<close>, \<^verbatim>\<open>$&\<close>, the text before and the text after the
  match; there are no capture groups).
\<close>

fun find_first :: "string \<Rightarrow> string \<Rightarrow> (string \<times> string) option" where
  "find_first pat [] = (if pat = [] then Some ([], []) else None)"
| "find_first pat (c # cs) =
     (if take (length pat) (c # cs) = pat then Some ([], drop (length pat) (c # cs))
      else map_option (\<lambda>(pre, post). (c # pre, post)) (find_first pat cs))"

fun get_substitution :: "string \<Rightarrow> string \<Rightarrow> string \<Rightarrow> string \<Rightarrow> string" where
  "get_substitution matched pre post [] = []"
| "get_substitution matched pre post [c] = [c]"
| "get_substitution matched pre post (c # d # r) =
     (if c = CHR ''$'' \<and> d = CHR ''$'' then CHR ''$'' # get_substitution matched pre post r
      else if c = CHR ''$'' \<and> d = CHR ''&'' then matched @ get_substitution matched pre post r
      else if c = CHR ''$'' \<and> d = CHR 0x60 then pre @ get_substitution matched pre post r
      else if c = CHR ''$'' \<and> d = CHR 0x27 then post @ get_substitution matched pre post r
      else c # get_substitution matched pre post (d # r))"

definition js_replace :: "string \<Rightarrow> string \<Rightarrow> string \<Rightarrow> string" where
  "js_replace s pat replacement =
     (case find_first pat s of
        None \<Rightarrow> s
      | Some (pre, post) \<Rightarrow> pre @ get_substitution pat pre post replacement @ post)"

fun format_args :: "nat \<Rightarrow> string \<Rightarrow> string list \<Rightarrow> string" where
  "format_args index msg [] = msg"
| "format_args index msg (arg # rest) =
     format_args (Suc index) (js_replace msg (CHR ''%'' # string_of_nat (Suc index)) arg) rest"

definition logger_info :: "env \<Rightarrow> string \<Rightarrow> string list \<Rightarrow> world \<Rightarrow> world" where
  "logger_info env message args w =
     (let formattedMessage = (if args \<noteq> [] then format_args 0 message args else message);
          (ts, w1) = now env w
      in emit (ConsoleInfo (ts @ '' - INFO - '' @ formattedMessage)) w1)"

definition logger_error :: "env \<Rightarrow> string \<Rightarrow> world \<Rightarrow> world" where
  "logger_error env message w =
     (let (ts, w1) = now env w
      in emit (ConsoleError (ts @ '' - ERROR - '' @ message)) w1)"

section \<open>The file system\<close>

text \<open>
  \<^verbatim>\<open>path.join\<close> on the segments this program passes (no empty segment, no dot segment, no
  separator inside the second one), on a POSIX host.
\<close>

definition path_join :: "string \<Rightarrow> string \<Rightarrow> string" where
  "path_join a b = a @ ''/'' @ b"

fun ancestors :: "string \<Rightarrow> string \<Rightarrow> string list" where
  "ancestors pre [] = []"
| "ancestors pre (c # cs) =
     (if c = CHR ''/'' \<and> pre \<noteq> [] then [pre] else []) @ ancestors (pre @ [c]) cs"

definition inside :: "string \<Rightarrow> string \<Rightarrow> bool" where
  "inside dir p = (p = dir \<or> take (Suc (length dir)) p = dir @ ''/'')"

text \<open>\<^verbatim>\<open>fs.mkdirSync(p, { recursive: true })\<close>, \<^verbatim>\<open>fs.writeFileSync\<close> and
  \<^verbatim>\<open>fs.rmSync(p, { recursive: true, force: true })\<close>, none of them failing.\<close>

definition mkdirSync :: "string \<Rightarrow> world \<Rightarrow> world" where
  "mkdirSync p w = emit (Mkdir p) (w\<lparr>fs := insert p (set (ancestors [] p) \<union> fs w)\<rparr>)"

definition writeFileSync :: "string \<Rightarrow> string \<Rightarrow> world \<Rightarrow> world" where
  "writeFileSync p data w = emit (WriteFile p data) (w\<lparr>fs := insert p (fs w)\<rparr>)"

definition rmSync :: "string \<Rightarrow> world \<Rightarrow> world" where
  "rmSync p w = emit (RmTree p) (w\<lparr>fs := Set.filter (\<lambda>q. \<not> inside p q) (fs w)\<rparr>)"

section \<open>PDFWorker\<close>

text \<open>
  The three methods settle their promise from the child's events: they resolve (\<open>Inr\<close>) or
  reject with an error (\<open>Inl\<close>).
\<close>

definition spawn :: "env \<Rightarrow> string \<Rightarrow> string list \<Rightarrow> world \<Rightarrow> proc_result \<times> world" where
  "spawn env prog args w = (spawn_result env prog args, emit (Spawn prog args) w)"

definition string_of_code :: "int option \<Rightarrow> string" where
  "string_of_code code = (case code of None \<Rightarrow> ''null'' | Some c \<Rightarrow> string_of_jsnum (Num c))"

text \<open>
  The leftmost match of \<^verbatim>\<open>/Pages:\s+(\d+)/\<close>, returning the group. White space and digits
  are disjoint, so the match at a position is the longest run of each.
\<close>

fun match_pages :: "string \<Rightarrow> string option" where
  "match_pages [] = None"
| "match_pages (c # cs) =
     (let r = drop 6 (c # cs);
          ds = takeWhile is_digit (dropWhile is_js_space r)
      in if take 6 (c # cs) = ''Pages:'' \<and> takeWhile is_js_space r \<noteq> [] \<and> ds \<noteq> []
         then Some ds else match_pages cs)"

definition getTotalPages :: "env \<Rightarrow> string \<Rightarrow> world \<Rightarrow> (error + jsnum) \<times> world" where
  "getTotalPages env pdfPath w =
     (case spawn env ''pdfinfo'' [pdfPath] w of
        (SpawnError err, w1) \<Rightarrow>
          (Inl (Error ''Error'' (''Failed to run pdfinfo: '' @ error_message err)), w1)
      | (Closed code output, w1) \<Rightarrow>
          if code \<noteq> Some 0
          then (Inl (Error ''Error'' (''pdfinfo exited with code '' @ string_of_code code)), w1)
          else (case match_pages output of
                  Some ds \<Rightarrow>
                    if ds \<noteq> [] then (Inr (parseInt ds), w1)
                    else (Inl (Error ''Error'' ''Could not determine page count''), w1)
                | None \<Rightarrow> (Inl (Error ''Error'' ''Could not determine page count''), w1)))"

definition extract_path :: "string \<Rightarrow> jsnum \<Rightarrow> jsnum \<Rightarrow> string" where
  "extract_path outputDir startPage endPage =
     path_join outputDir
       (''extract_'' @ string_of_jsnum startPage @ ''_'' @ string_of_jsnum endPage @ ''.pdf'')"

definition page_range_arg :: "jsnum \<Rightarrow> jsnum \<Rightarrow> string" where
  "page_range_arg startPage endPage = string_of_jsnum startPage @ ''-'' @ string_of_jsnum endPage"

definition pdftk_args :: "string \<Rightarrow> jsnum \<Rightarrow> jsnum \<Rightarrow> string \<Rightarrow> string list" where
  "pdftk_args pdfPath startPage endPage outputDir =
     [pdfPath, ''cat'', page_range_arg startPage endPage, ''output'',
      extract_path outputDir startPage endPage]"

definition extractPages ::
  "env \<Rightarrow> string \<Rightarrow> jsnum \<Rightarrow> jsnum \<Rightarrow> string \<Rightarrow> world \<Rightarrow> (error + string) \<times> world" where
  "extractPages env pdfPath startPage endPage outputDir w =
     (let outputPath = extract_path outputDir startPage endPage
      in case spawn env ''pdftk'' (pdftk_args pdfPath startPage endPage outputDir) w of
           (SpawnError err, w1) \<Rightarrow>
             (Inl (Error ''Error'' (''Failed to run pdftk: '' @ error_message err)), w1)
         | (Closed code output, w1) \<Rightarrow>
             if code \<noteq> Some 0
             then (Inl (Error ''Error'' (''pdftk exited with code '' @ string_of_code code)), w1)
             else (Inr outputPath, w1))"

definition ends_with :: "string \<Rightarrow> string \<Rightarrow> bool" where
  "ends_with s suffix =
     (length suffix \<le> length s \<and> drop (length s - length suffix) s = suffix)"

definition pdftoppm_args :: "string \<Rightarrow> string \<Rightarrow> string list" where
  "pdftoppm_args pdfPath outputDir =
     [''-jpeg'', ''-r'', ''300'', pdfPath, path_join (path_join outputDir ''images'') ''page'']"

definition convertToImages ::
  "env \<Rightarrow> string \<Rightarrow> string \<Rightarrow> world \<Rightarrow> (error + string list) \<times> world" where
  "convertToImages env pdfPath outputDir w =
     (let imageOutputDir = path_join outputDir ''images'';
          w0 = mkdirSync imageOutputDir w
      in case spawn env ''pdftoppm'' (pdftoppm_args pdfPath outputDir) w0 of
           (SpawnError err, w1) \<Rightarrow>
             (Inl (Error ''Error'' (''Failed to run pdftoppm: '' @ error_message err)), w1)
         | (Closed code output, w1) \<Rightarrow>
             if code \<noteq> Some 0
             then (Inl (Error ''Error'' (''pdftoppm exited with code '' @ string_of_code code)), w1)
             else (case readdir_result env imageOutputDir of
                     Inl err \<Rightarrow>
                       (Inl (Error ''Error''
                          (''Failed to read image directory: '' @ string_of_error err)),
                        emit (ReadDir imageOutputDir) w1)
                   | Inr files \<Rightarrow>
                       (Inr (map (path_join imageOutputDir)
                               (filter (\<lambda>file. ends_with file ''.jpg'') files)),
                        emit (ReadDir imageOutputDir) w1)))"

section \<open>LLMClient\<close>

record client =
  baseUrl :: string
  apiKey :: string
  model :: string

text \<open>
  The loop over \<^verbatim>\<open>imagePaths\<close>: each file is read whole; a failing read is logged with
  \<^verbatim>\<open>console.error\<close> and thrown again. \<open>n\<close> is the number of the client call. The result
  comes with the effects, in order.
\<close>

fun read_images :: "env \<Rightarrow> nat \<Rightarrow> string list \<Rightarrow> (error + content_item list) \<times> event list" where
  "read_images env n [] = (Inr [], [])"
| "read_images env n (imagePath # rest) =
     (case read_file_result env n imagePath of
        Inl err \<Rightarrow>
          (Inl err,
           [ReadFile imagePath,
            ConsoleError (''Error reading image file '' @ imagePath @ '': '' @ string_of_error err)])
      | Inr imageData \<Rightarrow>
          (case read_images env n rest of
             (Inr items, evs) \<Rightarrow>
               (Inr (ImageItem ''base64'' ''image/jpeg'' imageData # items), ReadFile imagePath # evs)
           | (Inl e, evs) \<Rightarrow> (Inl e, ReadFile imagePath # evs)))"

definition has_images :: "string list option \<Rightarrow> bool" where
  "has_images imagePaths = (case imagePaths of None \<Rightarrow> False | Some ps \<Rightarrow> length ps > 0)"

text \<open>Lines 36 to 62: the content of the user message.\<close>

definition user_content ::
  "env \<Rightarrow> nat \<Rightarrow> string \<Rightarrow> string list option \<Rightarrow> (error + content) \<times> event list" where
  "user_content env n userMessage imagePaths =
     (if has_images imagePaths
      then (case read_images env n (the imagePaths) of
              (Inr items, evs) \<Rightarrow> (Inr (ItemList (TextItem userMessage # items)), evs)
            | (Inl e, evs) \<Rightarrow> (Inl e, evs))
      else (Inr (SingleItem (TextItem userMessage)), []))"

text \<open>Lines 70 to 89: the payload, the URL and the headers of the request.\<close>

definition build_request :: "client \<Rightarrow> string \<Rightarrow> content \<Rightarrow> rat \<Rightarrow> int \<Rightarrow> request" where
  "build_request cl systemPrompt userContent temperature maxTokens =
     \<lparr>url = baseUrl cl @ ''models/'' @ model cl @ '':generateContent'',
      content_type = ''application/json'',
      authorization = ''Bearer '' @ apiKey cl,
      payload_model = model cl,
      payload_messages =
        (if systemPrompt \<noteq> [] then [\<lparr>role = ''system'', content = PlainString systemPrompt\<rparr>]
         else [])
        @ [\<lparr>role = ''user'', content = userContent\<rparr>],
      payload_temperature = temperature,
      payload_max_tokens = maxTokens\<rparr>"

text \<open>
  The guard chain of \<^verbatim>\<open>src/core/LLMClient.ts\<close>, lines 92 to 103: every level down to the
  parts list is tested, then \<^verbatim>\<open>parts[0].text\<close> is returned as it is.
\<close>

definition extract_text :: "response_data option \<Rightarrow> jsstr" where
  "extract_text data =
     (case data of
        None \<Rightarrow> Str []
      | Some d \<Rightarrow>
          (case data_candidates d of
             None \<Rightarrow> Str []
           | Some candidates \<Rightarrow>
               if \<not> length candidates > 0 then Str []
               else (case candidate_content (candidates ! 0) of
                       None \<Rightarrow> Str []
                     | Some c \<Rightarrow>
                         (case content_parts c of
                            None \<Rightarrow> Str []
                          | Some parts \<Rightarrow>
                              if \<not> length parts > 0 then Str []
                              else (case part_text (parts ! 0) of
                                      None \<Rightarrow> Undefined
                                    | Some t \<Rightarrow> Str t)))))"

text \<open>
  \<^verbatim>\<open>LLMClient.completion\<close>, as the \<open>n\<close>-th client call of the run: the text it returns or
  the error it throws, and the effects it has, in order.
\<close>

definition LLMClient_completion ::
  "env \<Rightarrow> client \<Rightarrow> nat \<Rightarrow> string \<Rightarrow> string \<Rightarrow> string list option \<Rightarrow> rat \<Rightarrow> int
     \<Rightarrow> (error + jsstr) \<times> event list" where
  "LLMClient_completion env cl n userMessage systemPrompt imagePaths temperature maxTokens =
     (case user_content env n userMessage imagePaths of
        (Inl e, evs) \<Rightarrow> (Inl e, evs)
      | (Inr userContent, evs) \<Rightarrow>
          (let req = build_request cl systemPrompt userContent temperature maxTokens
           in case http_post_result env n req of
                HttpError err \<Rightarrow>
                  (Inl err,
                   evs @ [HttpPost req,
                          ConsoleError (''Error calling LLM API: '' @ string_of_error err)])
              | HttpResponse data \<Rightarrow> (Inr (extract_text data), evs @ [HttpPost req])))"

section \<open>The retry-wrapped completion call\<close>

text \<open>\<^verbatim>\<open>process.env.X || fallback\<close>: an unset and an empty variable both give the fallback.\<close>

definition env_or :: "string option \<Rightarrow> string \<Rightarrow> string" where
  "env_or v fallback = (case v of None \<Rightarrow> fallback | Some s \<Rightarrow> if s = [] then fallback else s)"

definition sleep :: "nat \<Rightarrow> world \<Rightarrow> world" where
  "sleep ms w = emit (Sleep ms) w"

text \<open>
  The \<^verbatim>\<open>for\<close> loop of \<^verbatim>\<open>completion\<close> (\<^verbatim>\<open>src/index.ts\<close>, lines 56 to 74), from the value
  \<open>i\<close> of its counter. Every client call takes the next call number.
\<close>

function retry_loop ::
  "env \<Rightarrow> client \<Rightarrow> string \<Rightarrow> string \<Rightarrow> string list option \<Rightarrow> rat \<Rightarrow> int \<Rightarrow> nat \<Rightarrow> nat \<Rightarrow> world
     \<Rightarrow> jsstr \<times> world" where
  "retry_loop env cl message systemPrompt imagePaths temperature maxTokens retryTimes i w =
     (if i < retryTimes then
        (case LLMClient_completion env cl (calls w) message systemPrompt imagePaths
                temperature maxTokens of
           (Inr response, evs) \<Rightarrow> (response, emit_all evs (w\<lparr>calls := Suc (calls w)\<rparr>))
         | (Inl e, evs) \<Rightarrow>
             retry_loop env cl message systemPrompt imagePaths temperature maxTokens retryTimes
               (Suc i)
               (sleep 500
                  (logger_error env (''LLM call failed: '' @ error_message e)
                     (emit_all evs (w\<lparr>calls := Suc (calls w)\<rparr>)))))
      else (Str [], w))"
  by pat_completeness auto
termination
  by (relation "measure (\<lambda>(env, cl, message, systemPrompt, imagePaths, temperature, maxTokens,
        retryTimes, i, w). retryTimes - i)") auto

declare retry_loop.simps [simp del]

text \<open>
  What \<open>k\<close> failed client calls in a row leave in the trace, from call number \<open>n\<close> and clock
  reading \<open>t\<close>: for each call the client's own effects, then the failure logged by
  \<^verbatim>\<open>logger.error\<close>, then the wait of 500 ms.
\<close>

fun failed_attempts ::
  "env \<Rightarrow> client \<Rightarrow> string \<Rightarrow> string \<Rightarrow> string list option \<Rightarrow> rat \<Rightarrow> int \<Rightarrow> nat \<Rightarrow> nat \<Rightarrow> nat
     \<Rightarrow> event list" where
  "failed_attempts env cl message systemPrompt imagePaths temperature maxTokens n t 0 = []"
| "failed_attempts env cl message systemPrompt imagePaths temperature maxTokens n t (Suc k) =
     snd (LLMClient_completion env cl n message systemPrompt imagePaths temperature maxTokens)
     @ [ConsoleError
          (clock env t @ '' - ERROR - LLM call failed: '' @
           error_message
             (projl (fst (LLMClient_completion env cl n message systemPrompt imagePaths
                            temperature maxTokens)))),
        Sleep 500]
     @ failed_attempts env cl message systemPrompt imagePaths temperature maxTokens
         (Suc n) (Suc t) k"

text \<open>Lines 43 to 53: the client \<^verbatim>\<open>completion\<close> builds once the API key is known to be set.\<close>

definition make_client :: "env \<Rightarrow> string \<Rightarrow> client" where
  "make_client env model_arg =
     \<lparr>baseUrl =
        env_or (OPENAI_API_BASE env) ''https://generativelanguage.googleapis.com/v1beta/openai/'',
      apiKey = env_or (OPENAI_API_KEY env) [],
      model =
        (if model_arg = [] then env_or (OPENAI_DEFAULT_MODEL env) ''gemini-1.5-pro''
         else model_arg)\<rparr>"

text \<open>
  \<^verbatim>\<open>completion\<close> of \<^verbatim>\<open>src/index.ts\<close>: it returns a string (or \<^verbatim>\<open>undefined\<close>), or ends the
  process when the API key is missing. It has no path that throws.
\<close>

definition completion ::
  "env \<Rightarrow> string \<Rightarrow> string \<Rightarrow> string \<Rightarrow> string list option \<Rightarrow> rat \<Rightarrow> int \<Rightarrow> nat \<Rightarrow> world
     \<Rightarrow> jsstr result \<times> world" where
  "completion env message model_arg systemPrompt imagePaths temperature maxTokens retryTimes w =
     (if env_or (OPENAI_API_KEY env) [] = []
      then (Exit 1, logger_error env ''Please set the OPENAI_API_KEY environment variables'' w)
      else
        (case retry_loop env (make_client env model_arg) message systemPrompt imagePaths
                temperature maxTokens retryTimes 0 w of
           (response, w1) \<Rightarrow> (Return response, w1)))"

definition userPrompt :: string where
  "userPrompt =
     [NL] @ ''    Please read the content in the image and transcribe it into Markdown, paying special attention to maintaining the format of headings, text, formulas, and table rows and columns. Only output the Markdown, no additional explanation is needed.''
     @ [NL] @ ''  ''"

text \<open>The call leaves \<^verbatim>\<open>retryTimes\<close> to its default, 3.\<close>

definition convertImageToMarkdown :: "env \<Rightarrow> string \<Rightarrow> world \<Rightarrow> jsstr result \<times> world" where
  "convertImageToMarkdown env imagePath w =
     completion env userPrompt ''gemini-1.5-pro'' [] (Some [imagePath]) (3 / 10) 8192 3 w"

section \<open>The orchestrator\<close>

text \<open>
  \<^verbatim>\<open>Array.prototype.sort\<close> without a comparator orders strings by their code units; the
  sort is stable.
\<close>

fun str_le :: "string \<Rightarrow> string \<Rightarrow> bool" where
  "str_le [] t = True"
| "str_le (a # s) [] = False"
| "str_le (a # s) (b # t) =
     ((of_char a :: nat) < of_char b \<or> (a = b \<and> str_le s t))"

fun insert_sorted :: "string \<Rightarrow> string list \<Rightarrow> string list" where
  "insert_sorted x [] = [x]"
| "insert_sorted x (y # ys) = (if str_le x y then x # y # ys else y # insert_sorted x ys)"

definition js_sort :: "string list \<Rightarrow> string list" where
  "js_sort xs = foldr insert_sorted xs []"

text \<open>\<^verbatim>\<open>imgPath.replace(/\\/g, "/")\<close>.\<close>

definition normalize_path :: "string \<Rightarrow> string" where
  "normalize_path imgPath = map (\<lambda>c. if c = CHR 0x5C then CHR ''/'' else c) imgPath"

text \<open>The \<^verbatim>\<open>for ... of\<close> loop over the sorted image paths (lines 179 to 186).\<close>

fun transcribe_loop :: "env \<Rightarrow> string list \<Rightarrow> string \<Rightarrow> world \<Rightarrow> string result \<times> world" where
  "transcribe_loop env [] markdown w = (Return markdown, w)"
| "transcribe_loop env (imgPath # rest) markdown w =
     (let normalizedPath = normalize_path imgPath;
          w1 = logger_info env ''Converting image %1 to Markdown'' [normalizedPath] w
      in case convertImageToMarkdown env normalizedPath w1 of
           (Throw e, w2) \<Rightarrow> (Throw e, w2)
         | (Exit c, w2) \<Rightarrow> (Exit c, w2)
         | (Return imgMarkdown, w2) \<Rightarrow>
             (let markdown1 = markdown @ string_of_jsstr imgMarkdown;
                  markdown2 = markdown1 @ [NL, NL];
                  w3 = logger_info env ''Markdown info %1'' [markdown2] w2
              in transcribe_loop env rest markdown2 w3))"

definition parse_args :: "string list \<Rightarrow> jsnum \<times> jsnum" where
  "parse_args args =
     (if length args > 1 then (parseInt (args ! 0), parseInt (args ! 1))
      else if length args > 0 then (Num 1, parseInt (args ! 0))
      else (Num 1, Num 0))"

definition output_dir :: "string \<Rightarrow> string" where
  "output_dir stamp = path_join ''output'' (filter (\<lambda>c. c \<noteq> CHR '':'' \<and> c \<noteq> CHR ''.'') stamp)"

text \<open>
  The two \<^verbatim>\<open>if\<close> statements of \<^verbatim>\<open>main\<close> after the page count is known
  (\<^verbatim>\<open>src/index.ts\<close>, lines 148 to 153).
\<close>

definition resolve_range :: "jsnum \<Rightarrow> jsnum \<Rightarrow> jsnum \<Rightarrow> jsnum \<times> jsnum" where
  "resolve_range startPage endPage totalPages =
     (let startPage' = (if js_lt startPage (Num 1) \<or> js_gt startPage totalPages
                        then Num 1 else startPage);
          endPage' = (if js_strict_eq endPage (Num 0) \<or> js_gt endPage totalPages
                      then totalPages else endPage)
      in (startPage', endPage'))"

text \<open>Lines 172 to 194: rasterize, transcribe every image in sorted order, print, clean up.\<close>

definition convert_and_print :: "env \<Rightarrow> string \<Rightarrow> string \<Rightarrow> world \<Rightarrow> unit result \<times> world" where
  "convert_and_print env outputDir extractPath w =
     (case convertToImages env extractPath outputDir w of
        (Inl e, w1) \<Rightarrow> (Throw e, w1)
      | (Inr imgPaths, w1) \<Rightarrow>
          (case transcribe_loop env (js_sort imgPaths) []
                  (logger_info env ''Image conversion completed'' [] w1) of
             (Throw e, w2) \<Rightarrow> (Throw e, w2)
           | (Exit c, w2) \<Rightarrow> (Exit c, w2)
           | (Return markdown, w2) \<Rightarrow>
               (Return (),
                rmSync outputDir
                  (emit (ConsoleLog markdown)
                     (logger_info env ''Image conversion to Markdown completed'' [] w2)))))"

text \<open>Lines 148 to 170: clamp the range, log it, extract the pages when it is not the whole
  document.\<close>

definition extract_and_convert ::
  "env \<Rightarrow> string \<Rightarrow> string \<Rightarrow> jsnum \<Rightarrow> jsnum \<Rightarrow> jsnum \<Rightarrow> world \<Rightarrow> unit result \<times> world" where
  "extract_and_convert env outputDir inputPdfPath startPage0 endPage0 totalPages w =
     (let (startPage, endPage) = resolve_range startPage0 endPage0 totalPages;
          w1 = logger_info env ''Start processing from page %1 to page %2''
                 [string_of_jsnum startPage, string_of_jsnum endPage] w
      in if js_strict_neq startPage (Num 1) \<or> js_strict_neq endPage totalPages
         then (case extractPages env inputPdfPath startPage endPage outputDir w1 of
                 (Inl e, w2) \<Rightarrow> (Throw e, w2)
               | (Inr extractPath, w2) \<Rightarrow>
                   convert_and_print env outputDir extractPath
                     (logger_info env ''Extract pages to %1'' [extractPath] w2))
         else convert_and_print env outputDir inputPdfPath w1)"

text \<open>Lines 134 to 146 and what follows: the body of the listener once the input is known
  to be non-empty.\<close>

definition process_input :: "env \<Rightarrow> jsnum \<Rightarrow> jsnum \<Rightarrow> world \<Rightarrow> unit result \<times> world" where
  "process_input env startPage endPage w =
     (let (stamp, w0) = now env w;
          outputDir = output_dir stamp;
          w1 = mkdirSync outputDir w0;
          inputPdfPath = path_join outputDir ''input.pdf'';
          w2 = writeFileSync inputPdfPath (stdin_data env) w1
      in case getTotalPages env inputPdfPath w2 of
           (Inl e, w3) \<Rightarrow> (Throw e, w3)
         | (Inr totalPages, w3) \<Rightarrow>
             extract_and_convert env outputDir inputPdfPath startPage endPage totalPages w3)"

definition start_world :: "env \<Rightarrow> world" where
  "start_world env = \<lparr>fs = initial_fs env, trace = [], ticks = 0, calls = 0\<rparr>"

text \<open>
  \<^verbatim>\<open>main\<close>. The pipeline runs inside the asynchronous listener of the \<^verbatim>\<open>end\<close> event of
  standard input; the promise \<^verbatim>\<open>main\<close> awaits is settled only by the listener's
  \<^verbatim>\<open>resolve()\<close>, so an error thrown in the listener is a rejection nothing handles and
  never reaches \<^verbatim>\<open>main().catch\<close>.
\<close>

definition main :: "env \<Rightarrow> outcome \<times> world" where
  "main env =
     (let args = argv env; w = start_world env
      in if args = []
         then (Exited 1,
               logger_error env
                 ''Usage: ts-node index.ts [start_page] [end_page] < path_to_input.md'' w)
         else
           (let (startPage, endPage) = parse_args args
            in if length (stdin_data env) = 0
               then (Exited 1,
                     logger_error env
                       ''Usage: ts-node index.ts [start_page] [end_page] < path_to_input.pdf''
                       (logger_error env ''No input data received'' w))
               else (case process_input env startPage endPage w of
                       (Return u, w1) \<Rightarrow> (Exited 0, w1)
                     | (Exit c, w1) \<Rightarrow> (Exited c, w1)
                     | (Throw e, w1) \<Rightarrow> (Unhandled e, w1))))"

section \<open>Names for the statements\<close>

text \<open>The working directory of a run and the path of the saved input.\<close>

definition working_dir :: "env \<Rightarrow> string" where
  "working_dir env = output_dir (clock env 0)"

definition input_pdf :: "env \<Rightarrow> string" where
  "input_pdf env = path_join (working_dir env) ''input.pdf''"

text \<open>A child process succeeded: it closed with exit code 0.\<close>

definition succeeded :: "proc_result \<Rightarrow> bool" where
  "succeeded r = (case r of SpawnError e \<Rightarrow> False | Closed code out \<Rightarrow> code = Some 0)"

text \<open>
  The tools a run starts once the page count is known, in order: the extraction (when the
  resolved range is not the whole document) and the rasterization of its output when it
  succeeded, or the rasterization of the saved input.
\<close>

definition tool_runs :: "env \<Rightarrow> string \<Rightarrow> string \<Rightarrow> jsnum \<Rightarrow> jsnum \<Rightarrow> jsnum
    \<Rightarrow> (string \<times> string list) list" where
  "tool_runs env d input s e totalPages =
     (if js_strict_neq s (Num 1) \<or> js_strict_neq e totalPages
      then (''pdftk'', pdftk_args input s e d)
           # (if succeeded (spawn_result env ''pdftk'' (pdftk_args input s e d))
              then [(''pdftoppm'', pdftoppm_args (extract_path d s e) d)] else [])
      else [(''pdftoppm'', pdftoppm_args input d)])"

section \<open>Example runs\<close>

text \<open>A run whose first two HTTP requests fail and whose third succeeds.\<close>

definition flaky_env :: env where
  "flaky_env =
     \<lparr>argv = [''1''],
      stdin_data = ''%PDF'',
      clock = (\<lambda>n. ''T'' @ string_of_nat n),
      OPENAI_API_KEY = Some ''key'',
      OPENAI_API_BASE = None,
      OPENAI_DEFAULT_MODEL = Some ''other-model'',
      initial_fs = {},
      spawn_result = (\<lambda>prog args. Closed (Some 0) []),
      readdir_result = (\<lambda>dir. Inr []),
      read_file_result = (\<lambda>n p. Inr ''jpeg''),
      http_post_result =
        (\<lambda>n req. if n < 2 then HttpError (Error ''AxiosError'' ''timeout'')
                  else HttpResponse (Some (Data (Some [Candidate (Some (Content (Some
                         [Part (Some ''# Title'')])))]))))\<rparr>"

text \<open>A run whose only response has a first part without a \<^verbatim>\<open>text\<close> property.\<close>

definition no_text_env :: env where
  "no_text_env =
     \<lparr>argv = [''1''],
      stdin_data = ''%PDF'',
      clock = (\<lambda>n. ''T'' @ string_of_nat n),
      OPENAI_API_KEY = Some ''key'',
      OPENAI_API_BASE = None,
      OPENAI_DEFAULT_MODEL = None,
      initial_fs = {},
      spawn_result =
        (\<lambda>prog args. if prog = ''pdfinfo'' then Closed (Some 0) ''Pages: 1'' else Closed (Some 0) []),
      readdir_result = (\<lambda>dir. Inr [''page-1.jpg'']),
      read_file_result = (\<lambda>n p. Inr ''jpeg''),
      http_post_result =
        (\<lambda>n req. HttpResponse (Some (Data (Some [Candidate (Some (Content (Some [Part None])))]))))\<rparr>"

text \<open>A two-page run whose first three HTTP requests fail.\<close>

definition first_page_fails_env :: env where
  "first_page_fails_env =
     \<lparr>argv = [''2''],
      stdin_data = ''%PDF'',
      clock = (\<lambda>n. ''T'' @ string_of_nat n),
      OPENAI_API_KEY = Some ''key'',
      OPENAI_API_BASE = None,
      OPENAI_DEFAULT_MODEL = None,
      initial_fs = {},
      spawn_result =
        (\<lambda>prog args. if prog = ''pdfinfo'' then Closed (Some 0) ''Pages: 2'' else Closed (Some 0) []),
      readdir_result = (\<lambda>dir. Inr [''page-1.jpg'', ''page-2.jpg'']),
      read_file_result = (\<lambda>n p. Inr ''jpeg''),
      http_post_result =
        (\<lambda>n req. if n < 3 then HttpError (Error ''AxiosError'' ''timeout'')
                  else HttpResponse (Some (Data (Some [Candidate (Some (Content (Some
                         [Part (Some ''# Page 2'')])))]))))\<rparr>"

text \<open>
  The end-to-end scenario: a three-page document, the arguments \<^verbatim>\<open>2 3\<close>, tools that
  succeed, the two images of the extracted pages listed out of order, and an endpoint that
  answers \<^verbatim>\<open># Page N\<close> and a newline for the image of page \<open>N\<close> (\<^verbatim>\<open>page-1.jpg\<close> of the
  extracted document shows page 2).
\<close>

definition scenario_env :: env where
  "scenario_env =
     \<lparr>argv = [''2'', ''3''],
      stdin_data = ''%PDF-1.4'',
      clock = (\<lambda>n. ''2024-01-02T03:04:05.678Z''),
      OPENAI_API_KEY = Some ''key'',
      OPENAI_API_BASE = None,
      OPENAI_DEFAULT_MODEL = None,
      initial_fs = {},
      spawn_result =
        (\<lambda>prog args. if prog = ''pdfinfo'' then Closed (Some 0) (''Pages:          3'' @ [NL])
                      else Closed (Some 0) []),
      readdir_result = (\<lambda>dir. Inr [''page-2.jpg'', ''page-1.jpg'']),
      read_file_result = (\<lambda>n p. Inr (if ends_with p ''page-1.jpg'' then ''2'' else ''3'')),
      http_post_result =
        (\<lambda>n req. case content (last (payload_messages req)) of
                    ItemList [TextItem t, ImageItem st mt d] \<Rightarrow>
                      HttpResponse (Some (Data (Some [Candidate (Some (Content (Some
                        [Part (Some (''# Page '' @ d @ [NL]))])))])))
                  | _ \<Rightarrow> HttpError (Error ''AxiosError'' ''bad request''))\<rparr>"

text \<open>The same document with the single argument \<^verbatim>\<open>3\<close>: the whole document is asked for.\<close>

definition whole_document_env :: env where
  "whole_document_env =
     scenario_env
       \<lparr>argv := [''3''],
        readdir_result := (\<lambda>dir. Inr [''page-1.jpg'', ''page-2.jpg'', ''page-3.jpg'']),
        read_file_result := (\<lambda>n p. Inr (take 1 (drop (length p - 5) p)))\<rparr>"

text \<open>The scenario with a page-count query that exits with code 1.\<close>

definition pdfinfo_fails_env :: env where
  "pdfinfo_fails_env =
     scenario_env
       \<lparr>spawn_result :=
          (\<lambda>prog args. if prog = ''pdfinfo'' then Closed (Some 1) [] else Closed (Some 0) [])\<rparr>"

text \<open>The scenario with other arguments and an extraction tool that rejects its range.\<close>

definition rejected_range_env :: "string list \<Rightarrow> env" where
  "rejected_range_env args =
     scenario_env
       \<lparr>argv := args,
        spawn_result :=
          (\<lambda>prog args. if prog = ''pdfinfo'' then Closed (Some 0) (''Pages:          3'' @ [NL])
                        else Closed (Some 1) [])\<rparr>"

text \<open>The scenario with a rasterizer that is killed by a signal.\<close>

definition pdftoppm_killed_env :: env where
  "pdftoppm_killed_env =
     scenario_env
       \<lparr>spawn_result :=
          (\<lambda>prog args. if prog = ''pdfinfo'' then Closed (Some 0) (''Pages:          3'' @ [NL])
                        else if prog = ''pdftoppm'' then Closed None []
                        else Closed (Some 0) [])\<rparr>"

text \<open>The scenario without the API key.\<close>

definition no_key_env :: env where
  "no_key_env = scenario_env\<lparr>OPENAI_API_KEY := None\<rparr>"

text \<open>The Markdown of the scenario and the request posted for an image of it.\<close>

definition scenario_markdown :: string where
  "scenario_markdown = ''# Page 2'' @ [NL, NL, NL] @ ''# Page 3'' @ [NL, NL, NL]"

definition scenario_request :: "string \<Rightarrow> request" where
  "scenario_request imageData =
     build_request (make_client scenario_env ''gemini-1.5-pro'') []
       (ItemList [TextItem userPrompt, ImageItem ''base64'' ''image/jpeg'' imageData]) (3 / 10) 8192"

section \<open>Auxiliary lemmas\<close>

subsection \<open>Projections of the trace\<close>

lemma stdout_of_append [simp]: "stdout_of (xs @ ys) = stdout_of xs @ stdout_of ys"
  by (induction xs rule: stdout_of.induct) simp_all

lemma stderr_of_append [simp]: "stderr_of (xs @ ys) = stderr_of xs @ stderr_of ys"
  by (induction xs rule: stderr_of.induct) simp_all

lemma spawns_of_append [simp]: "spawns_of (xs @ ys) = spawns_of xs @ spawns_of ys"
  by (induction xs rule: spawns_of.induct) simp_all

lemma posts_of_append [simp]: "posts_of (xs @ ys) = posts_of xs @ posts_of ys"
  by (induction xs rule: posts_of.induct) simp_all

lemma sleeps_of_append [simp]: "sleeps_of (xs @ ys) = sleeps_of xs @ sleeps_of ys"
  by (induction xs rule: sleeps_of.induct) simp_all

subsection \<open>What each effect does to the state\<close>

lemma emit_fields [simp]:
  "fs (emit e w) = fs w" "trace (emit e w) = trace w @ [e]"
  "ticks (emit e w) = ticks w" "calls (emit e w) = calls w"
  by (simp_all add: emit_def)

lemma emit_all_fields [simp]:
  "fs (emit_all es w) = fs w" "trace (emit_all es w) = trace w @ es"
  "ticks (emit_all es w) = ticks w" "calls (emit_all es w) = calls w"
  by (simp_all add: emit_all_def)

lemma sleep_fields [simp]:
  "fs (sleep ms w) = fs w" "trace (sleep ms w) = trace w @ [Sleep ms]"
  "ticks (sleep ms w) = ticks w" "calls (sleep ms w) = calls w"
  by (simp_all add: sleep_def)

lemma logger_info_fields [simp]:
  "fs (logger_info env m args w) = fs w"
  "trace (logger_info env m args w) =
     trace w @ [ConsoleInfo (clock env (ticks w) @ '' - INFO - '' @
                  (if args \<noteq> [] then format_args 0 m args else m))]"
  "ticks (logger_info env m args w) = Suc (ticks w)"
  "calls (logger_info env m args w) = calls w"
  by (simp_all add: logger_info_def now_def Let_def)

lemma logger_error_fields [simp]:
  "fs (logger_error env m w) = fs w"
  "trace (logger_error env m w) = trace w @ [ConsoleError (clock env (ticks w) @ '' - ERROR - '' @ m)]"
  "ticks (logger_error env m w) = Suc (ticks w)"
  "calls (logger_error env m w) = calls w"
  by (simp_all add: logger_error_def now_def Let_def)

lemma mkdirSync_fields [simp]:
  "fs (mkdirSync p w) = insert p (set (ancestors [] p) \<union> fs w)"
  "trace (mkdirSync p w) = trace w @ [Mkdir p]"
  "ticks (mkdirSync p w) = ticks w" "calls (mkdirSync p w) = calls w"
  by (simp_all add: mkdirSync_def)

lemma writeFileSync_fields [simp]:
  "fs (writeFileSync p d w) = insert p (fs w)"
  "trace (writeFileSync p d w) = trace w @ [WriteFile p d]"
  "ticks (writeFileSync p d w) = ticks w" "calls (writeFileSync p d w) = calls w"
  by (simp_all add: writeFileSync_def)

lemma rmSync_fields [simp]:
  "fs (rmSync p w) = Set.filter (\<lambda>q. \<not> inside p q) (fs w)"
  "trace (rmSync p w) = trace w @ [RmTree p]"
  "ticks (rmSync p w) = ticks w" "calls (rmSync p w) = calls w"
  by (simp_all add: rmSync_def)

lemma spawn_fields [simp]:
  "fst (spawn env prog args w) = spawn_result env prog args"
  "snd (spawn env prog args w) = emit (Spawn prog args) w"
  by (simp_all add: spawn_def)

subsection \<open>The client\<close>

lemma read_images_quiet [simp]:
  "spawns_of (snd (read_images env n ps)) = []"
  "posts_of (snd (read_images env n ps)) = []"
  "sleeps_of (snd (read_images env n ps)) = []"
  by (induction ps) (auto split: sum.splits prod.splits)

lemma user_content_quiet [simp]:
  "spawns_of (snd (user_content env n msg imgs)) = []"
  "posts_of (snd (user_content env n msg imgs)) = []"
  "sleeps_of (snd (user_content env n msg imgs)) = []"
proof -
  obtain r evs where ri: "read_images env n (the imgs) = (r, evs)"
    by (cases "read_images env n (the imgs)")
  have q: "spawns_of evs = []" "posts_of evs = []" "sleeps_of evs = []"
    using read_images_quiet [of env n "the imgs"] ri by simp_all
  show "spawns_of (snd (user_content env n msg imgs)) = []"
    using ri q by (simp add: user_content_def split: sum.splits)
  show "posts_of (snd (user_content env n msg imgs)) = []"
    using ri q by (simp add: user_content_def split: sum.splits)
  show "sleeps_of (snd (user_content env n msg imgs)) = []"
    using ri q by (simp add: user_content_def split: sum.splits)
qed

lemma client_quiet [simp]:
  "spawns_of (snd (LLMClient_completion env cl n msg sys imgs temp maxTok)) = []"
  "sleeps_of (snd (LLMClient_completion env cl n msg sys imgs temp maxTok)) = []"
proof -
  obtain r evs where uc: "user_content env n msg imgs = (r, evs)"
    by (cases "user_content env n msg imgs")
  have q: "spawns_of evs = []" "sleeps_of evs = []"
    using user_content_quiet [of env n msg imgs] uc by simp_all
  show "spawns_of (snd (LLMClient_completion env cl n msg sys imgs temp maxTok)) = []"
    using uc q by (simp add: LLMClient_completion_def Let_def split: sum.splits http_result.splits)
  show "sleeps_of (snd (LLMClient_completion env cl n msg sys imgs temp maxTok)) = []"
    using uc q by (simp add: LLMClient_completion_def Let_def split: sum.splits http_result.splits)
qed

lemma client_posts:
  "r \<in> set (posts_of (snd (LLMClient_completion env cl n msg sys imgs temp maxTok))) \<Longrightarrow>
     payload_model r = model cl \<and> payload_temperature r = temp \<and> payload_max_tokens r = maxTok
     \<and> url r = baseUrl cl @ ''models/'' @ model cl @ '':generateContent''"
proof -
  assume a: "r \<in> set (posts_of (snd (LLMClient_completion env cl n msg sys imgs temp maxTok)))"
  obtain res evs where uc: "user_content env n msg imgs = (res, evs)"
    by (cases "user_content env n msg imgs")
  have q: "posts_of evs = []"
    using user_content_quiet [of env n msg imgs] uc by simp
  show ?thesis
    using a uc q
    by (auto simp: LLMClient_completion_def Let_def build_request_def
        split: sum.splits http_result.splits)
qed

subsection \<open>The retry loop\<close>

lemma retry_loop_frame:
  "fs (snd (retry_loop env cl msg sys imgs temp maxTok rt i w)) = fs w
   \<and> spawns_of (trace (snd (retry_loop env cl msg sys imgs temp maxTok rt i w))) = spawns_of (trace w)"
proof (induction env cl msg sys imgs temp maxTok rt i w rule: retry_loop.induct)
  case (1 env cl msg sys imgs temp maxTok rt i w)
  show ?case
  proof (cases "i < rt")
    case False
    then show ?thesis by (simp add: retry_loop.simps)
  next
    case True
    obtain r evs where c: "LLMClient_completion env cl (calls w) msg sys imgs temp maxTok = (r, evs)"
      by (cases "LLMClient_completion env cl (calls w) msg sys imgs temp maxTok")
    have q: "spawns_of evs = []"
      using client_quiet(1) [of env cl "calls w" msg sys imgs temp maxTok] c by simp
    show ?thesis
    proof (cases r)
      case (Inr response)
      with True c q show ?thesis
        by (subst retry_loop.simps, subst retry_loop.simps) simp
    next
      case (Inl e)
      with True c q "1.IH" [OF True c [symmetric] Inl] show ?thesis
        by (subst retry_loop.simps, subst retry_loop.simps) simp
    qed
  qed
qed

lemma retry_loop_calls:
  "calls (snd (retry_loop env cl msg sys imgs temp maxTok rt i w)) \<le> calls w + (rt - i)"
proof (induction env cl msg sys imgs temp maxTok rt i w rule: retry_loop.induct)
  case (1 env cl msg sys imgs temp maxTok rt i w)
  show ?case
  proof (cases "i < rt")
    case False
    then show ?thesis by (simp add: retry_loop.simps)
  next
    case True
    obtain r evs where c: "LLMClient_completion env cl (calls w) msg sys imgs temp maxTok = (r, evs)"
      by (cases "LLMClient_completion env cl (calls w) msg sys imgs temp maxTok")
    show ?thesis
    proof (cases r)
      case (Inr response)
      with True c show ?thesis
        by (subst retry_loop.simps) simp
    next
      case (Inl e)
      with True c "1.IH" [OF True c [symmetric] Inl] show ?thesis
        by (subst retry_loop.simps) simp
    qed
  qed
qed

lemma retry_loop_failures:
  assumes "\<forall>j<k. isl (fst (LLMClient_completion env cl (calls w + j) msg sys imgs temp maxTok))"
    and "i + k \<le> rt"
  shows "retry_loop env cl msg sys imgs temp maxTok rt i w =
         retry_loop env cl msg sys imgs temp maxTok rt (i + k)
           (w\<lparr>trace := trace w @ failed_attempts env cl msg sys imgs temp maxTok (calls w) (ticks w) k,
              ticks := ticks w + k, calls := calls w + k\<rparr>)"
  using assms
proof (induction k arbitrary: i w)
  case 0
  show ?case by simp
next
  case (Suc k)
  obtain r evs where c: "LLMClient_completion env cl (calls w) msg sys imgs temp maxTok = (r, evs)"
    by (cases "LLMClient_completion env cl (calls w) msg sys imgs temp maxTok")
  from Suc.prems(1) have "isl (fst (LLMClient_completion env cl (calls w + 0) msg sys imgs temp maxTok))"
    by blast
  with c obtain e where r: "r = Inl e"
    by (cases r) simp_all
  define W1 where "W1 = w\<lparr>trace := trace w @ evs @
        [ConsoleError (clock env (ticks w) @ '' - ERROR - LLM call failed: '' @ error_message e),
         Sleep 500],
      ticks := Suc (ticks w), calls := Suc (calls w)\<rparr>"
  have w1: "sleep 500 (logger_error env (''LLM call failed: '' @ error_message e)
               (emit_all evs (w\<lparr>calls := Suc (calls w)\<rparr>))) = W1"
    by (simp add: W1_def sleep_def logger_error_def emit_def emit_all_def now_def)
  have step: "retry_loop env cl msg sys imgs temp maxTok rt i w =
              retry_loop env cl msg sys imgs temp maxTok rt (Suc i) W1"
    using Suc.prems(2) c r w1 by (subst retry_loop.simps) simp
  have fields: "calls W1 = Suc (calls w)" "ticks W1 = Suc (ticks w)"
    by (simp_all add: W1_def)
  have hyp: "\<forall>j<k. isl (fst (LLMClient_completion env cl (calls W1 + j) msg sys imgs temp maxTok))"
  proof (intro allI impI)
    fix j assume "j < k"
    then have "Suc j < Suc k" by simp
    with Suc.prems(1) have "isl (fst (LLMClient_completion env cl (calls w + Suc j) msg sys imgs temp maxTok))"
      by blast
    then show "isl (fst (LLMClient_completion env cl (calls W1 + j) msg sys imgs temp maxTok))"
      by (simp add: fields)
  qed
  have le: "Suc i + k \<le> rt" using Suc.prems(2) by simp
  have ih: "retry_loop env cl msg sys imgs temp maxTok rt (Suc i) W1 =
            retry_loop env cl msg sys imgs temp maxTok rt (Suc i + k)
              (W1\<lparr>trace := trace W1 @ failed_attempts env cl msg sys imgs temp maxTok (calls W1) (ticks W1) k,
                  ticks := ticks W1 + k, calls := calls W1 + k\<rparr>)"
    by (rule Suc.IH [OF hyp le])
  have final: "W1\<lparr>trace := trace W1 @ failed_attempts env cl msg sys imgs temp maxTok (calls W1) (ticks W1) k,
                  ticks := ticks W1 + k, calls := calls W1 + k\<rparr> =
               w\<lparr>trace := trace w @ failed_attempts env cl msg sys imgs temp maxTok (calls w) (ticks w) (Suc k),
                 ticks := ticks w + Suc k, calls := calls w + Suc k\<rparr>"
    by (simp add: W1_def c r)
  show ?case
    unfolding step ih final by simp
qed

lemma completion_with_key:
  "env_or (OPENAI_API_KEY env) [] \<noteq> [] \<Longrightarrow>
     completion env msg model_arg sys imgs temp maxTok rt w =
       (Return (fst (retry_loop env (make_client env model_arg) msg sys imgs temp maxTok rt 0 w)),
        snd (retry_loop env (make_client env model_arg) msg sys imgs temp maxTok rt 0 w))"
  by (simp add: completion_def split: prod.splits)

lemma completion_without_key:
  "env_or (OPENAI_API_KEY env) [] = [] \<Longrightarrow>
     completion env msg model_arg sys imgs temp maxTok rt w =
       (Exit 1, logger_error env ''Please set the OPENAI_API_KEY environment variables'' w)"
  by (simp add: completion_def)

lemma retry_loop_posts:
  "\<exists>ps. posts_of (trace (snd (retry_loop env cl msg sys imgs temp maxTok rt i w))) =
           posts_of (trace w) @ ps
        \<and> (\<forall>r\<in>set ps. payload_model r = model cl \<and> payload_temperature r = temp
               \<and> payload_max_tokens r = maxTok
               \<and> url r = baseUrl cl @ ''models/'' @ model cl @ '':generateContent'')"
proof (induction env cl msg sys imgs temp maxTok rt i w rule: retry_loop.induct)
  case (1 env cl msg sys imgs temp maxTok rt i w)
  let ?P = "\<lambda>r. payload_model r = model cl \<and> payload_temperature r = temp
               \<and> payload_max_tokens r = maxTok
               \<and> url r = baseUrl cl @ ''models/'' @ model cl @ '':generateContent''"
  show ?case
  proof (cases "i < rt")
    case False
    then show ?thesis by (simp add: retry_loop.simps)
  next
    case True
    obtain r evs where c: "LLMClient_completion env cl (calls w) msg sys imgs temp maxTok = (r, evs)"
      by (cases "LLMClient_completion env cl (calls w) msg sys imgs temp maxTok")
    have q: "\<forall>r\<in>set (posts_of evs). ?P r"
      using client_posts [of _ env cl "calls w" msg sys imgs temp maxTok] c by simp
    show ?thesis
    proof (cases r)
      case (Inr response)
      with True c q show ?thesis
        by (subst retry_loop.simps) simp
    next
      case (Inl e)
      from "1.IH" [OF True c [symmetric] Inl]
      obtain ps where ps:
        "posts_of (trace (snd (retry_loop env cl msg sys imgs temp maxTok rt (Suc i)
            (sleep 500 (logger_error env (''LLM call failed: '' @ error_message e)
               (emit_all evs (w\<lparr>calls := Suc (calls w)\<rparr>))))))) =
         posts_of (trace w) @ posts_of evs @ ps" "\<forall>r\<in>set ps. ?P r"
        by auto
      have "retry_loop env cl msg sys imgs temp maxTok rt i w =
            retry_loop env cl msg sys imgs temp maxTok rt (Suc i)
              (sleep 500 (logger_error env (''LLM call failed: '' @ error_message e)
                 (emit_all evs (w\<lparr>calls := Suc (calls w)\<rparr>))))"
        using True c Inl by (subst retry_loop.simps) simp
      with ps q show ?thesis
        by (intro exI [of _ "posts_of evs @ ps"]) auto
    qed
  qed
qed

lemma extract_text_absent_levels:
  "extract_text None = Str []"
  "extract_text (Some (Data None)) = Str []"
  "extract_text (Some (Data (Some []))) = Str []"
  "extract_text (Some (Data (Some (Candidate None # cs)))) = Str []"
  "extract_text (Some (Data (Some (Candidate (Some (Content None)) # cs)))) = Str []"
  "extract_text (Some (Data (Some (Candidate (Some (Content (Some []))) # cs)))) = Str []"
  "extract_text (Some (Data (Some (Candidate (Some (Content (Some (Part (Some t) # ps)))) # cs)))) = Str t"
  by (simp_all add: extract_text_def)

lemma completion_posts:
  "\<exists>ps. posts_of (trace (snd (completion env msg model_arg sys imgs temp maxTok rt w))) =
           posts_of (trace w) @ ps
        \<and> (\<forall>r\<in>set ps. payload_model r = model (make_client env model_arg)
               \<and> payload_temperature r = temp \<and> payload_max_tokens r = maxTok
               \<and> url r = baseUrl (make_client env model_arg) @ ''models/''
                           @ model (make_client env model_arg) @ '':generateContent'')"
proof (cases "env_or (OPENAI_API_KEY env) [] = []")
  case True
  then show ?thesis by (simp add: completion_without_key)
next
  case False
  then show ?thesis
    using retry_loop_posts [of env "make_client env model_arg" msg sys imgs temp maxTok rt 0 w]
    by (simp add: completion_with_key)
qed

lemma transcribe_loop_failed_page:
  assumes key: "env_or (OPENAI_API_KEY env) [] \<noteq> []"
    and fails: "\<forall>j<3. isl (fst (LLMClient_completion env (make_client env ''gemini-1.5-pro'')
                  (calls w + j) userPrompt [] (Some [normalize_path imgPath]) (3 / 10) 8192))"
  shows "convertImageToMarkdown env (normalize_path imgPath)
           (logger_info env ''Converting image %1 to Markdown'' [normalize_path imgPath] w) =
         (Return (Str []),
          (logger_info env ''Converting image %1 to Markdown'' [normalize_path imgPath] w)
          \<lparr>trace := trace (logger_info env ''Converting image %1 to Markdown'' [normalize_path imgPath] w)
               @ failed_attempts env (make_client env ''gemini-1.5-pro'') userPrompt []
                   (Some [normalize_path imgPath]) (3 / 10) 8192 (calls w) (Suc (ticks w)) 3,
            ticks := Suc (ticks w) + 3, calls := calls w + 3\<rparr>)"
proof -
  let ?w1 = "logger_info env ''Converting image %1 to Markdown'' [normalize_path imgPath] w"
  let ?cl = "make_client env ''gemini-1.5-pro''"
  have f1: "\<forall>j<3. isl (fst (LLMClient_completion env ?cl (calls ?w1 + j) userPrompt []
                (Some [normalize_path imgPath]) (3 / 10) 8192))"
    using fails by simp
  have le: "0 + 3 \<le> (3::nat)" by simp
  have "retry_loop env ?cl userPrompt [] (Some [normalize_path imgPath]) (3 / 10) 8192 3 0 ?w1 =
        (Str [], ?w1\<lparr>trace := trace ?w1 @ failed_attempts env ?cl userPrompt []
                        (Some [normalize_path imgPath]) (3 / 10) 8192 (calls ?w1) (ticks ?w1) 3,
                      ticks := ticks ?w1 + 3, calls := calls ?w1 + 3\<rparr>)"
    unfolding retry_loop_failures [OF f1 le]
    by (simp add: retry_loop.simps [of _ _ _ _ _ _ _ 3 3])
  then show ?thesis
    using key by (simp add: convertImageToMarkdown_def completion_with_key)
qed

lemma retry_loop_success:
  assumes "i < rt"
    and "\<not> isl (fst (LLMClient_completion env cl (calls w) msg sys imgs temp maxTok))"
  shows "retry_loop env cl msg sys imgs temp maxTok rt i w =
         (projr (fst (LLMClient_completion env cl (calls w) msg sys imgs temp maxTok)),
          emit_all (snd (LLMClient_completion env cl (calls w) msg sys imgs temp maxTok))
            (w\<lparr>calls := Suc (calls w)\<rparr>))"
proof -
  obtain r evs where c: "LLMClient_completion env cl (calls w) msg sys imgs temp maxTok = (r, evs)"
    by (cases "LLMClient_completion env cl (calls w) msg sys imgs temp maxTok")
  with assms(2) obtain response where r: "r = Inr response"
    by (cases r) simp_all
  show ?thesis
    using assms(1) c r by (subst retry_loop.simps) simp
qed

subsection \<open>The transcription loop\<close>

lemma completion_frame:
  "fs (snd (completion env msg model_arg sys imgs temp maxTok rt w)) = fs w"
  "spawns_of (trace (snd (completion env msg model_arg sys imgs temp maxTok rt w))) =
     spawns_of (trace w)"
  using retry_loop_frame [of env "make_client env model_arg" msg sys imgs temp maxTok rt 0 w]
  by (cases "env_or (OPENAI_API_KEY env) [] = []";
      simp add: completion_with_key completion_without_key)+

lemma completion_result:
  "fst (completion env msg model_arg sys imgs temp maxTok rt w) =
     (if env_or (OPENAI_API_KEY env) [] = [] then Exit 1
      else Return (fst (retry_loop env (make_client env model_arg) msg sys imgs temp maxTok rt 0 w)))"
  by (simp add: completion_with_key completion_without_key)

lemma transcribe_loop_frame:
  "fs (snd (transcribe_loop env imgs markdown w)) = fs w
   \<and> spawns_of (trace (snd (transcribe_loop env imgs markdown w))) = spawns_of (trace w)
   \<and> (\<forall>c. fst (transcribe_loop env imgs markdown w) = Exit c \<longrightarrow> c = 1)
   \<and> (\<forall>e. fst (transcribe_loop env imgs markdown w) \<noteq> Throw e)"
proof (induction imgs arbitrary: markdown w)
  case Nil
  show ?case by simp
next
  case (Cons imgPath rest)
  let ?w1 = "logger_info env ''Converting image %1 to Markdown'' [normalize_path imgPath] w"
  obtain r w2 where c: "convertImageToMarkdown env (normalize_path imgPath) ?w1 = (r, w2)"
    by (cases "convertImageToMarkdown env (normalize_path imgPath) ?w1")
  have fr: "fs w2 = fs w" "spawns_of (trace w2) = spawns_of (trace w)"
    using completion_frame [of env userPrompt "''gemini-1.5-pro''" "[]"
        "Some [normalize_path imgPath]" "3 / 10" 8192 3 ?w1] c
    by (simp_all add: convertImageToMarkdown_def)
  have res: "r = Exit 1 \<or> (\<exists>s. r = Return s)"
    using completion_result [of env userPrompt "''gemini-1.5-pro''" "[]"
        "Some [normalize_path imgPath]" "3 / 10" 8192 3 ?w1] c
    by (simp add: convertImageToMarkdown_def split: if_splits)
  from res show ?case
  proof
    assume "r = Exit 1"
    with c fr show ?thesis by (simp add: Let_def)
  next
    assume "\<exists>s. r = Return s"
    then obtain s where s: "r = Return s" by blast
    let ?md = "markdown @ string_of_jsstr s @ [NL, NL]"
    let ?w3 = "logger_info env ''Markdown info %1'' [?md] w2"
    have step: "transcribe_loop env (imgPath # rest) markdown w = transcribe_loop env rest ?md ?w3"
      using c s by (simp add: Let_def)
    show ?thesis
      unfolding step using Cons.IH [of ?md ?w3] fr by simp
  qed
qed

lemma transcribe_loop_without_key:
  assumes "env_or (OPENAI_API_KEY env) [] = []"
  shows "transcribe_loop env (imgPath # rest) markdown w =
         (Exit 1,
          logger_error env ''Please set the OPENAI_API_KEY environment variables''
            (logger_info env ''Converting image %1 to Markdown'' [normalize_path imgPath] w))"
  using assms by (simp add: Let_def convertImageToMarkdown_def completion_without_key)

subsection \<open>PDFWorker\<close>

lemma getTotalPages_snd [simp]:
  "snd (getTotalPages env p w) = emit (Spawn ''pdfinfo'' [p]) w"
  by (simp add: getTotalPages_def spawn_def split: proc_result.splits option.splits)

lemma getTotalPages_fst: "fst (getTotalPages env p w) = fst (getTotalPages env p w')"
  by (simp add: getTotalPages_def spawn_def split: proc_result.splits option.splits)

lemma extractPages_snd [simp]:
  "snd (extractPages env p s e d w) = emit (Spawn ''pdftk'' (pdftk_args p s e d)) w"
  by (simp add: extractPages_def spawn_def Let_def split: proc_result.splits)

lemma extractPages_fst:
  "fst (extractPages env p s e d w) =
     (case spawn_result env ''pdftk'' (pdftk_args p s e d) of
        SpawnError err \<Rightarrow> Inl (Error ''Error'' (''Failed to run pdftk: '' @ error_message err))
      | Closed code out \<Rightarrow>
          if code \<noteq> Some 0
          then Inl (Error ''Error'' (''pdftk exited with code '' @ string_of_code code))
          else Inr (extract_path d s e))"
  by (simp add: extractPages_def spawn_def Let_def split: proc_result.splits)

lemma extractPages_ok:
  "(\<not> isl (fst (extractPages env p s e d w))) = succeeded (spawn_result env ''pdftk'' (pdftk_args p s e d))"
  "fst (extractPages env p s e d w) = Inr x \<Longrightarrow> x = extract_path d s e"
  by (auto simp: extractPages_fst succeeded_def split: proc_result.splits if_splits)

lemma convertToImages_frame:
  "fs w \<subseteq> fs (snd (convertToImages env p d w))"
  "spawns_of (trace (snd (convertToImages env p d w))) =
     spawns_of (trace w) @ [(''pdftoppm'', pdftoppm_args p d)]"
  by (auto simp: convertToImages_def spawn_def Let_def split: proc_result.splits sum.splits)

lemma convertToImages_fst: "fst (convertToImages env p d w) = fst (convertToImages env p d w')"
  by (simp add: convertToImages_def spawn_def Let_def split: proc_result.splits sum.splits)

subsection \<open>The stages of the run\<close>

lemma inside_self [simp]: "inside d d"
  by (simp add: inside_def)

lemma convert_and_print_spawns:
  "spawns_of (trace (snd (convert_and_print env d p w))) =
     spawns_of (trace w) @ [(''pdftoppm'', pdftoppm_args p d)]"
proof -
  obtain r w1 where ci: "convertToImages env p d w = (r, w1)"
    by (cases "convertToImages env p d w")
  have sp: "spawns_of (trace w1) = spawns_of (trace w) @ [(''pdftoppm'', pdftoppm_args p d)]"
    using convertToImages_frame(2) [of env p d w] ci by simp
  show ?thesis
  proof (cases r)
    case (Inl e)
    with ci sp show ?thesis by (simp add: convert_and_print_def)
  next
    case (Inr imgPaths)
    let ?w2 = "logger_info env ''Image conversion completed'' [] w1"
    obtain r2 w3 where tl: "transcribe_loop env (js_sort imgPaths) [] ?w2 = (r2, w3)"
      by (cases "transcribe_loop env (js_sort imgPaths) [] ?w2")
    have "spawns_of (trace w3) = spawns_of (trace ?w2)"
      using transcribe_loop_frame [of env "js_sort imgPaths" "[]" ?w2] tl by simp
    with ci Inr tl sp show ?thesis
      by (cases r2) (simp_all add: convert_and_print_def)
  qed
qed

lemma convert_and_print_fs:
  "(fst (convert_and_print env d p w) = Return () \<longrightarrow> d \<notin> fs (snd (convert_and_print env d p w)))
   \<and> (fst (convert_and_print env d p w) \<noteq> Return () \<longrightarrow>
        fs w \<subseteq> fs (snd (convert_and_print env d p w)))
   \<and> (\<forall>c. fst (convert_and_print env d p w) = Exit c \<longrightarrow> c = 1)"
proof -
  obtain r w1 where ci: "convertToImages env p d w = (r, w1)"
    by (cases "convertToImages env p d w")
  have sub: "fs w \<subseteq> fs w1"
    using convertToImages_frame(1) [of w env p d] ci by simp
  show ?thesis
  proof (cases r)
    case (Inl e)
    with ci sub show ?thesis by (simp add: convert_and_print_def)
  next
    case (Inr imgPaths)
    let ?w2 = "logger_info env ''Image conversion completed'' [] w1"
    obtain r2 w3 where tl: "transcribe_loop env (js_sort imgPaths) [] ?w2 = (r2, w3)"
      by (cases "transcribe_loop env (js_sort imgPaths) [] ?w2")
    have fr: "fs w3 = fs w1" "\<forall>c. r2 = Exit c \<longrightarrow> c = 1"
      using transcribe_loop_frame [of env "js_sort imgPaths" "[]" ?w2] tl by simp_all
    with ci Inr tl sub show ?thesis
      by (cases r2) (auto simp: convert_and_print_def)
  qed
qed

lemma extract_and_convert_spawns:
  assumes "resolve_range s0 e0 totalPages = (s, e)"
  shows "spawns_of (trace (snd (extract_and_convert env d input s0 e0 totalPages w))) =
         spawns_of (trace w) @ tool_runs env d input s e totalPages"
proof -
  let ?w1 = "logger_info env ''Start processing from page %1 to page %2''
               [string_of_jsnum s, string_of_jsnum e] w"
  show ?thesis
  proof (cases "js_strict_neq s (Num 1) \<or> js_strict_neq e totalPages")
    case False
    with assms show ?thesis
      by (simp add: extract_and_convert_def tool_runs_def convert_and_print_spawns)
  next
    case True
    obtain r w2 where ex: "extractPages env input s e d ?w1 = (r, w2)"
      by (cases "extractPages env input s e d ?w1")
    have w2: "w2 = emit (Spawn ''pdftk'' (pdftk_args input s e d)) ?w1"
      using extractPages_snd [of env input s e d ?w1] ex by simp
    have ok: "(\<not> isl r) = succeeded (spawn_result env ''pdftk'' (pdftk_args input s e d))"
      using extractPages_ok(1) [of env input s e d ?w1] ex by simp
    show ?thesis
    proof (cases r)
      case (Inl err)
      with assms True ex w2 ok show ?thesis
        by (simp add: extract_and_convert_def tool_runs_def)
    next
      case (Inr extractPath)
      have "extractPath = extract_path d s e"
        using extractPages_ok(2) [of env input s e d ?w1 extractPath] ex Inr by simp
      with assms True ex w2 ok Inr show ?thesis
        by (simp add: extract_and_convert_def tool_runs_def convert_and_print_spawns)
    qed
  qed
qed

lemma extract_and_convert_fs:
  "(fst (extract_and_convert env d input s0 e0 totalPages w) = Return () \<longrightarrow>
      d \<notin> fs (snd (extract_and_convert env d input s0 e0 totalPages w)))
   \<and> (fst (extract_and_convert env d input s0 e0 totalPages w) \<noteq> Return () \<longrightarrow>
        fs w \<subseteq> fs (snd (extract_and_convert env d input s0 e0 totalPages w)))
   \<and> (\<forall>c. fst (extract_and_convert env d input s0 e0 totalPages w) = Exit c \<longrightarrow> c = 1)"
proof -
  obtain s e where r: "resolve_range s0 e0 totalPages = (s, e)"
    by (cases "resolve_range s0 e0 totalPages")
  let ?w1 = "logger_info env ''Start processing from page %1 to page %2''
               [string_of_jsnum s, string_of_jsnum e] w"
  show ?thesis
  proof (cases "js_strict_neq s (Num 1) \<or> js_strict_neq e totalPages")
    case False
    with r show ?thesis
      using convert_and_print_fs [of env d input ?w1]
      by (simp add: extract_and_convert_def)
  next
    case True
    obtain x w2 where ex: "extractPages env input s e d ?w1 = (x, w2)"
      by (cases "extractPages env input s e d ?w1")
    have w2: "w2 = emit (Spawn ''pdftk'' (pdftk_args input s e d)) ?w1"
      using extractPages_snd [of env input s e d ?w1] ex by simp
    show ?thesis
    proof (cases x)
      case (Inl err)
      with r True ex w2 show ?thesis
        by (simp add: extract_and_convert_def)
    next
      case (Inr extractPath)
      with r True ex w2 show ?thesis
        using convert_and_print_fs [of env d extractPath
            "logger_info env ''Extract pages to %1'' [extractPath] w2"]
        by (simp add: extract_and_convert_def)
    qed
  qed
qed

lemma js_strict_neq_Num: "js_strict_neq x (Num n) = (x \<noteq> Num n)"
  by (cases x) (simp_all add: js_strict_neq_def)

lemma digit_not_space: "is_digit c \<Longrightarrow> \<not> is_js_space c"
  by (auto simp: is_digit_def is_js_space_def)

lemma digit_not_sign: "is_digit c \<Longrightarrow> c \<noteq> CHR ''-'' \<and> c \<noteq> CHR ''+''"
  by (auto simp: is_digit_def)

lemma parseInt_digits:
  assumes "ds \<noteq> []" and "\<forall>c\<in>set ds. is_digit c"
  shows "parseInt ds = Num (int (digits_value ds))"
proof -
  obtain c cs where ds: "ds = c # cs"
    using assms(1) by (cases ds) simp_all
  have c: "is_digit c" using assms(2) ds by simp
  have "dropWhile is_js_space ds = ds"
    using c ds by (simp add: digit_not_space)
  moreover have "takeWhile is_digit ds = ds"
    using assms(2) by (simp add: takeWhile_eq_all_conv)
  ultimately show ?thesis
    using ds digit_not_sign [OF c] assms(1)
    by (simp add: parseInt_def Let_def)
qed

lemma match_pages_digits:
  "match_pages out = Some ds \<Longrightarrow> ds \<noteq> [] \<and> (\<forall>c\<in>set ds. is_digit c)"
proof (induction out rule: match_pages.induct)
  case 1
  then show ?case by simp
next
  case (2 c cs)
  then show ?case
    by (auto simp: Let_def split: if_splits dest: set_takeWhileD)
qed

lemma getTotalPages_Num:
  assumes "fst (getTotalPages env p w) = Inr totalPages"
  shows "\<exists>n. totalPages = Num (int n)"
proof -
  from assms obtain out ds where "match_pages out = Some ds" "totalPages = parseInt ds"
    by (auto simp: getTotalPages_def spawn_def split: proc_result.splits if_splits option.splits)
  with match_pages_digits [of out ds] parseInt_digits [of ds] show ?thesis
    by auto
qed

lemma process_input_spawns:
  "spawns_of (trace (snd (process_input env s0 e0 w))) =
     spawns_of (trace w)
     @ (''pdfinfo'', [path_join (output_dir (clock env (ticks w))) ''input.pdf''])
     # (case fst (getTotalPages env (path_join (output_dir (clock env (ticks w))) ''input.pdf'') w) of
          Inl err \<Rightarrow> []
        | Inr totalPages \<Rightarrow>
            tool_runs env (output_dir (clock env (ticks w)))
              (path_join (output_dir (clock env (ticks w))) ''input.pdf'')
              (fst (resolve_range s0 e0 totalPages)) (snd (resolve_range s0 e0 totalPages))
              totalPages)"
proof -
  let ?d = "output_dir (clock env (ticks w))"
  let ?input = "path_join ?d ''input.pdf''"
  let ?w2 = "writeFileSync ?input (stdin_data env) (mkdirSync ?d (w\<lparr>ticks := Suc (ticks w)\<rparr>))"
  obtain r w3 where g: "getTotalPages env ?input ?w2 = (r, w3)"
    by (cases "getTotalPages env ?input ?w2")
  have w3: "w3 = emit (Spawn ''pdfinfo'' [?input]) ?w2"
    using getTotalPages_snd [of env ?input ?w2] g by simp
  have r: "fst (getTotalPages env ?input w) = r"
    using getTotalPages_fst [of env ?input w ?w2] g by simp
  show ?thesis
  proof (cases r)
    case (Inl err)
    with g w3 r show ?thesis
      by (simp add: process_input_def now_def Let_def)
  next
    case (Inr totalPages)
    have "spawns_of (trace (snd (extract_and_convert env ?d ?input s0 e0 totalPages w3))) =
          spawns_of (trace w3) @ tool_runs env ?d ?input (fst (resolve_range s0 e0 totalPages))
            (snd (resolve_range s0 e0 totalPages)) totalPages"
      by (rule extract_and_convert_spawns) simp
    with g w3 r Inr show ?thesis
      by (simp add: process_input_def now_def Let_def)
  qed
qed

lemma process_input_fs:
  "(fst (process_input env s0 e0 w) = Return () \<longrightarrow>
      output_dir (clock env (ticks w)) \<notin> fs (snd (process_input env s0 e0 w)))
   \<and> (fst (process_input env s0 e0 w) \<noteq> Return () \<longrightarrow>
        output_dir (clock env (ticks w)) \<in> fs (snd (process_input env s0 e0 w))
        \<and> path_join (output_dir (clock env (ticks w))) ''input.pdf''
            \<in> fs (snd (process_input env s0 e0 w)))
   \<and> (\<forall>c. fst (process_input env s0 e0 w) = Exit c \<longrightarrow> c = 1)"
proof -
  let ?d = "output_dir (clock env (ticks w))"
  let ?input = "path_join ?d ''input.pdf''"
  let ?w2 = "writeFileSync ?input (stdin_data env) (mkdirSync ?d (w\<lparr>ticks := Suc (ticks w)\<rparr>))"
  obtain r w3 where g: "getTotalPages env ?input ?w2 = (r, w3)"
    by (cases "getTotalPages env ?input ?w2")
  have w3: "w3 = emit (Spawn ''pdfinfo'' [?input]) ?w2"
    using getTotalPages_snd [of env ?input ?w2] g by simp
  have mem: "?d \<in> fs w3" "?input \<in> fs w3"
    by (simp_all add: w3)
  show ?thesis
  proof (cases r)
    case (Inl err)
    with g mem show ?thesis
      by (simp add: process_input_def now_def Let_def)
  next
    case (Inr totalPages)
    with g mem show ?thesis
      using extract_and_convert_fs [of env ?d ?input s0 e0 totalPages w3]
      by (auto simp: process_input_def now_def Let_def)
  qed
qed

subsection \<open>The whole run\<close>

lemma main_unfold:
  assumes "argv env \<noteq> []" and "stdin_data env \<noteq> []"
  shows "main env =
         (case process_input env (fst (parse_args (argv env))) (snd (parse_args (argv env)))
                 (start_world env) of
            (Return u, w1) \<Rightarrow> (Exited 0, w1)
          | (Exit c, w1) \<Rightarrow> (Exited c, w1)
          | (Throw e, w1) \<Rightarrow> (Unhandled e, w1))"
  using assms by (simp add: main_def Let_def split: prod.splits)

lemma start_world_fields [simp]:
  "fs (start_world env) = initial_fs env" "trace (start_world env) = []"
  "ticks (start_world env) = 0" "calls (start_world env) = 0"
  by (simp_all add: start_world_def)

lemma main_snd:
  assumes "argv env \<noteq> []" and "stdin_data env \<noteq> []"
  shows "snd (main env) =
         snd (process_input env (fst (parse_args (argv env))) (snd (parse_args (argv env)))
                (start_world env))"
  unfolding main_unfold [OF assms]
  by (simp split: prod.splits result.splits)

lemma main_fst:
  assumes "argv env \<noteq> []" and "stdin_data env \<noteq> []"
  shows "fst (main env) =
         (case fst (process_input env (fst (parse_args (argv env))) (snd (parse_args (argv env)))
                (start_world env)) of
            Return u \<Rightarrow> Exited 0 | Exit c \<Rightarrow> Exited c | Throw e \<Rightarrow> Unhandled e)"
  unfolding main_unfold [OF assms]
  by (simp split: prod.splits result.splits)

lemma main_spawns:
  assumes "argv env \<noteq> []" and "stdin_data env \<noteq> []"
  shows "spawns_of (trace (snd (main env))) =
         (''pdfinfo'', [input_pdf env])
         # (case fst (getTotalPages env (input_pdf env) (start_world env)) of
              Inl err \<Rightarrow> []
            | Inr totalPages \<Rightarrow>
                tool_runs env (working_dir env) (input_pdf env)
                  (fst (resolve_range (fst (parse_args (argv env))) (snd (parse_args (argv env)))
                          totalPages))
                  (snd (resolve_range (fst (parse_args (argv env))) (snd (parse_args (argv env)))
                          totalPages))
                  totalPages)"
  unfolding main_snd [OF assms] process_input_spawns
  by (simp add: input_pdf_def working_dir_def split: sum.splits)

lemma main_fs:
  assumes "argv env \<noteq> []" and "stdin_data env \<noteq> []"
  shows "(fst (main env) = Exited 0 \<longrightarrow> working_dir env \<notin> fs (snd (main env)))
       \<and> (fst (main env) \<noteq> Exited 0 \<longrightarrow>
            working_dir env \<in> fs (snd (main env)) \<and> input_pdf env \<in> fs (snd (main env)))"
  using process_input_fs [of env "fst (parse_args (argv env))" "snd (parse_args (argv env))"
      "start_world env"]
  unfolding main_snd [OF assms] main_fst [OF assms]
  by (auto simp: input_pdf_def working_dir_def split: result.splits)

subsection \<open>A run without the API key\<close>

lemma insert_sorted_nonempty: "insert_sorted x ys \<noteq> []"
  by (cases ys) simp_all

lemma js_sort_nonempty: "xs \<noteq> [] \<Longrightarrow> js_sort xs \<noteq> []"
  by (cases xs) (simp_all add: js_sort_def insert_sorted_nonempty)

lemma convertToImages_quiet:
  "posts_of (trace (snd (convertToImages env p d w))) = posts_of (trace w)"
  "stderr_of (trace (snd (convertToImages env p d w))) = stderr_of (trace w)"
  "calls (snd (convertToImages env p d w)) = calls w"
  by (auto simp: convertToImages_def spawn_def Let_def split: proc_result.splits sum.splits)

lemma convert_and_print_without_key:
  assumes "env_or (OPENAI_API_KEY env) [] = []"
    and "fst (convertToImages env p d w) = Inr imgPaths" and "imgPaths \<noteq> []"
  shows "\<exists>w0. convert_and_print env d p w =
                (Exit 1, logger_error env ''Please set the OPENAI_API_KEY environment variables'' w0)
              \<and> posts_of (trace w0) = posts_of (trace w)
              \<and> stderr_of (trace w0) = stderr_of (trace w)
              \<and> calls w0 = calls w"
proof -
  obtain w1 where ci: "convertToImages env p d w = (Inr imgPaths, w1)"
    using assms(2) by (cases "convertToImages env p d w") simp
  have q: "posts_of (trace w1) = posts_of (trace w)" "stderr_of (trace w1) = stderr_of (trace w)"
    "calls w1 = calls w"
    using convertToImages_quiet [of env p d w] ci by simp_all
  obtain imgPath rest where srt: "js_sort imgPaths = imgPath # rest"
    using js_sort_nonempty [OF assms(3)] by (cases "js_sort imgPaths") simp_all
  let ?w0 = "logger_info env ''Converting image %1 to Markdown'' [normalize_path imgPath]
               (logger_info env ''Image conversion completed'' [] w1)"
  have "convert_and_print env d p w =
        (Exit 1, logger_error env ''Please set the OPENAI_API_KEY environment variables'' ?w0)"
    using ci srt transcribe_loop_without_key [OF assms(1)]
    by (simp add: convert_and_print_def)
  moreover have "posts_of (trace ?w0) = posts_of (trace w)" "stderr_of (trace ?w0) = stderr_of (trace w)"
    "calls ?w0 = calls w"
    using q by simp_all
  ultimately show ?thesis by blast
qed

lemma extract_and_convert_without_key:
  assumes key: "env_or (OPENAI_API_KEY env) [] = []"
    and range: "resolve_range s0 e0 totalPages = (s, e)"
    and extraction: "js_strict_neq s (Num 1) \<or> js_strict_neq e totalPages \<Longrightarrow>
        succeeded (spawn_result env ''pdftk'' (pdftk_args input s e d))"
    and raster: "fst (convertToImages env
          (if js_strict_neq s (Num 1) \<or> js_strict_neq e totalPages then extract_path d s e else input)
          d w) = Inr imgPaths"
    and images: "imgPaths \<noteq> []"
  shows "\<exists>w0. extract_and_convert env d input s0 e0 totalPages w =
                (Exit 1, logger_error env ''Please set the OPENAI_API_KEY environment variables'' w0)
              \<and> posts_of (trace w0) = posts_of (trace w)
              \<and> stderr_of (trace w0) = stderr_of (trace w)
              \<and> calls w0 = calls w"
proof -
  let ?w1 = "logger_info env ''Start processing from page %1 to page %2''
               [string_of_jsnum s, string_of_jsnum e] w"
  show ?thesis
  proof (cases "js_strict_neq s (Num 1) \<or> js_strict_neq e totalPages")
    case False
    have r: "fst (convertToImages env input d ?w1) = Inr imgPaths"
      using raster False convertToImages_fst [of env input d ?w1 w] by simp
    from convert_and_print_without_key [OF key r images] range False show ?thesis
      by (auto simp: extract_and_convert_def)
  next
    case True
    obtain x w2 where ex: "extractPages env input s e d ?w1 = (x, w2)"
      by (cases "extractPages env input s e d ?w1")
    have w2: "w2 = emit (Spawn ''pdftk'' (pdftk_args input s e d)) ?w1"
      using extractPages_snd [of env input s e d ?w1] ex by simp
    have "\<not> isl x"
      using extractPages_ok(1) [of env input s e d ?w1] ex extraction [OF True] by simp
    then obtain extractPath where x: "x = Inr extractPath"
      by (cases x) simp_all
    have path: "extractPath = extract_path d s e"
      using extractPages_ok(2) [of env input s e d ?w1 extractPath] ex x by simp
    let ?w3 = "logger_info env ''Extract pages to %1'' [extractPath] w2"
    have r: "fst (convertToImages env extractPath d ?w3) = Inr imgPaths"
      using raster True path convertToImages_fst [of env extractPath d ?w3 w] by simp
    from convert_and_print_without_key [OF key r images] range True ex x w2 show ?thesis
      by (auto simp: extract_and_convert_def)
  qed
qed

lemma main_without_key:
  assumes args: "argv env \<noteq> []" and input: "stdin_data env \<noteq> []"
    and key: "env_or (OPENAI_API_KEY env) [] = []"
    and pages: "fst (getTotalPages env (input_pdf env) (start_world env)) = Inr totalPages"
    and range: "resolve_range (fst (parse_args (argv env))) (snd (parse_args (argv env)))
                  totalPages = (s, e)"
    and extraction: "js_strict_neq s (Num 1) \<or> js_strict_neq e totalPages \<Longrightarrow>
        succeeded (spawn_result env ''pdftk'' (pdftk_args (input_pdf env) s e (working_dir env)))"
    and raster: "fst (convertToImages env
          (if js_strict_neq s (Num 1) \<or> js_strict_neq e totalPages
           then extract_path (working_dir env) s e else input_pdf env)
          (working_dir env) (start_world env)) = Inr imgPaths"
    and images: "imgPaths \<noteq> []"
  shows "\<exists>w0. main env =
                (Exited 1, logger_error env ''Please set the OPENAI_API_KEY environment variables'' w0)
              \<and> posts_of (trace w0) = [] \<and> stderr_of (trace w0) = [] \<and> calls w0 = 0"
proof -
  let ?d = "working_dir env"
  let ?input = "input_pdf env"
  let ?w2 = "writeFileSync ?input (stdin_data env)
               (mkdirSync ?d ((start_world env)\<lparr>ticks := Suc (ticks (start_world env))\<rparr>))"
  obtain r w3 where g: "getTotalPages env ?input ?w2 = (r, w3)"
    by (cases "getTotalPages env ?input ?w2")
  have w3: "w3 = emit (Spawn ''pdfinfo'' [?input]) ?w2"
    using getTotalPages_snd [of env ?input ?w2] unfolding g by simp
  have r: "r = Inr totalPages"
    using getTotalPages_fst [of env ?input "start_world env" ?w2] pages unfolding g by simp
  have raster3: "fst (convertToImages env
          (if js_strict_neq s (Num 1) \<or> js_strict_neq e totalPages
           then extract_path ?d s e else ?input) ?d w3) = Inr imgPaths"
    using raster convertToImages_fst [of env _ ?d w3 "start_world env"] by simp
  from extract_and_convert_without_key [OF key range extraction raster3 images]
  obtain w0 where w0:
    "extract_and_convert env ?d ?input (fst (parse_args (argv env))) (snd (parse_args (argv env)))
       totalPages w3 =
     (Exit 1, logger_error env ''Please set the OPENAI_API_KEY environment variables'' w0)"
    "posts_of (trace w0) = posts_of (trace w3)" "stderr_of (trace w0) = stderr_of (trace w3)"
    "calls w0 = calls w3"
    by blast
  have "process_input env (fst (parse_args (argv env))) (snd (parse_args (argv env)))
          (start_world env) =
        (Exit 1, logger_error env ''Please set the OPENAI_API_KEY environment variables'' w0)"
    using g r w0(1)
    by (simp add: process_input_def now_def Let_def working_dir_def input_pdf_def)
  then have "main env =
        (Exited 1, logger_error env ''Please set the OPENAI_API_KEY environment variables'' w0)"
    unfolding main_unfold [OF args input] by simp
  moreover have "posts_of (trace w0) = []" "stderr_of (trace w0) = []" "calls w0 = 0"
    using w0(2,3,4) by (simp_all add: w3)
  ultimately show ?thesis by blast
qed

subsection \<open>What the removal leaves\<close>

lemma convert_and_print_clears:
  assumes "fst (convert_and_print env d p w) = Return ()"
  shows "\<forall>q\<in>fs (snd (convert_and_print env d p w)). \<not> inside d q"
    and "\<forall>q\<in>fs w. \<not> inside d q \<longrightarrow> q \<in> fs (snd (convert_and_print env d p w))"
proof -
  obtain r w1 where ci: "convertToImages env p d w = (r, w1)"
    by (cases "convertToImages env p d w")
  have sub: "fs w \<subseteq> fs w1"
    using convertToImages_frame(1) [of w env p d] ci by simp
  from assms ci obtain imgPaths where r: "r = Inr imgPaths"
    by (cases r) (simp_all add: convert_and_print_def)
  let ?w2 = "logger_info env ''Image conversion completed'' [] w1"
  obtain r2 w3 where tl: "transcribe_loop env (js_sort imgPaths) [] ?w2 = (r2, w3)"
    by (cases "transcribe_loop env (js_sort imgPaths) [] ?w2")
  have fr: "fs w3 = fs w1"
    using transcribe_loop_frame [of env "js_sort imgPaths" "[]" ?w2] tl by simp
  from assms ci r tl obtain markdown where r2: "r2 = Return markdown"
    by (cases r2) (simp_all add: convert_and_print_def)
  have final: "fs (snd (convert_and_print env d p w)) = Set.filter (\<lambda>q. \<not> inside d q) (fs w1)"
    using ci r tl r2 fr by (simp add: convert_and_print_def)
  show "\<forall>q\<in>fs (snd (convert_and_print env d p w)). \<not> inside d q"
    unfolding final by simp
  show "\<forall>q\<in>fs w. \<not> inside d q \<longrightarrow> q \<in> fs (snd (convert_and_print env d p w))"
    unfolding final using sub by auto
qed

lemma extract_and_convert_clears:
  assumes "fst (extract_and_convert env d input s0 e0 totalPages w) = Return ()"
  shows "\<forall>q\<in>fs (snd (extract_and_convert env d input s0 e0 totalPages w)). \<not> inside d q"
    and "\<forall>q\<in>fs w. \<not> inside d q \<longrightarrow>
           q \<in> fs (snd (extract_and_convert env d input s0 e0 totalPages w))"
proof -
  obtain s e where r: "resolve_range s0 e0 totalPages = (s, e)"
    by (cases "resolve_range s0 e0 totalPages")
  let ?w1 = "logger_info env ''Start processing from page %1 to page %2''
               [string_of_jsnum s, string_of_jsnum e] w"
  have "(\<forall>q\<in>fs (snd (extract_and_convert env d input s0 e0 totalPages w)). \<not> inside d q)
        \<and> (\<forall>q\<in>fs w. \<not> inside d q \<longrightarrow>
             q \<in> fs (snd (extract_and_convert env d input s0 e0 totalPages w)))"
  proof (cases "js_strict_neq s (Num 1) \<or> js_strict_neq e totalPages")
    case False
    with r assms have "fst (convert_and_print env d input ?w1) = Return ()"
      by (simp add: extract_and_convert_def)
    from convert_and_print_clears [OF this] r False show ?thesis
      by (simp add: extract_and_convert_def)
  next
    case True
    obtain x w2 where ex: "extractPages env input s e d ?w1 = (x, w2)"
      by (cases "extractPages env input s e d ?w1")
    have w2: "w2 = emit (Spawn ''pdftk'' (pdftk_args input s e d)) ?w1"
      using extractPages_snd [of env input s e d ?w1] ex by simp
    from assms r True ex obtain extractPath where x: "x = Inr extractPath"
      by (cases x) (simp_all add: extract_and_convert_def)
    let ?w3 = "logger_info env ''Extract pages to %1'' [extractPath] w2"
    from assms r True ex x have "fst (convert_and_print env d extractPath ?w3) = Return ()"
      by (simp add: extract_and_convert_def)
    from convert_and_print_clears [OF this] r True ex x w2 show ?thesis
      by (simp add: extract_and_convert_def)
  qed
  then show "\<forall>q\<in>fs (snd (extract_and_convert env d input s0 e0 totalPages w)). \<not> inside d q"
    and "\<forall>q\<in>fs w. \<not> inside d q \<longrightarrow>
           q \<in> fs (snd (extract_and_convert env d input s0 e0 totalPages w))"
    by simp_all
qed

lemma process_input_clears:
  assumes "fst (process_input env s0 e0 w) = Return ()"
  shows "\<forall>q\<in>fs (snd (process_input env s0 e0 w)). \<not> inside (output_dir (clock env (ticks w))) q"
    and "\<forall>q\<in>fs w. \<not> inside (output_dir (clock env (ticks w))) q \<longrightarrow>
           q \<in> fs (snd (process_input env s0 e0 w))"
proof -
  let ?d = "output_dir (clock env (ticks w))"
  let ?input = "path_join ?d ''input.pdf''"
  let ?w2 = "writeFileSync ?input (stdin_data env) (mkdirSync ?d (w\<lparr>ticks := Suc (ticks w)\<rparr>))"
  obtain r w3 where g: "getTotalPages env ?input ?w2 = (r, w3)"
    by (cases "getTotalPages env ?input ?w2")
  have w3: "w3 = emit (Spawn ''pdfinfo'' [?input]) ?w2"
    using getTotalPages_snd [of env ?input ?w2] g by simp
  have sub: "fs w \<subseteq> fs w3"
    by (auto simp: w3)
  from assms g obtain totalPages where r: "r = Inr totalPages"
    by (cases r) (simp_all add: process_input_def now_def Let_def)
  have eq: "process_input env s0 e0 w = extract_and_convert env ?d ?input s0 e0 totalPages w3"
    using g r by (simp add: process_input_def now_def Let_def)
  with assms have ret: "fst (extract_and_convert env ?d ?input s0 e0 totalPages w3) = Return ()"
    by simp
  show "\<forall>q\<in>fs (snd (process_input env s0 e0 w)). \<not> inside ?d q"
    unfolding eq using extract_and_convert_clears(1) [OF ret] .
  show "\<forall>q\<in>fs w. \<not> inside ?d q \<longrightarrow> q \<in> fs (snd (process_input env s0 e0 w))"
    unfolding eq using extract_and_convert_clears(2) [OF ret] sub by blast
qed

lemma main_clears:
  assumes "argv env \<noteq> []" and "stdin_data env \<noteq> []" and "fst (main env) = Exited 0"
  shows "\<forall>q\<in>fs (snd (main env)). \<not> inside (working_dir env) q"
    and "\<forall>q\<in>initial_fs env. \<not> inside (working_dir env) q \<longrightarrow> q \<in> fs (snd (main env))"
proof -
  let ?p = "process_input env (fst (parse_args (argv env))) (snd (parse_args (argv env)))
              (start_world env)"
  have c1: "\<forall>c. fst ?p = Exit c \<longrightarrow> c = 1"
    using process_input_fs [of env "fst (parse_args (argv env))" "snd (parse_args (argv env))"
        "start_world env"] by blast
  have ret: "fst ?p = Return ()"
    using assms(3) c1 unfolding main_fst [OF assms(1,2)]
    by (cases "fst ?p") auto
  show "\<forall>q\<in>fs (snd (main env)). \<not> inside (working_dir env) q"
    using process_input_clears(1) [OF ret]
    unfolding main_snd [OF assms(1,2)] by (simp add: working_dir_def)
  show "\<forall>q\<in>initial_fs env. \<not> inside (working_dir env) q \<longrightarrow> q \<in> fs (snd (main env))"
    using process_input_clears(2) [OF ret]
    unfolding main_snd [OF assms(1,2)] by (simp add: working_dir_def)
qed

subsection \<open>A failing tool\<close>

lemma convert_and_print_raster_fails:
  "fst (convertToImages env p d w) = Inl err \<Longrightarrow> fst (convert_and_print env d p w) = Throw err"
  by (cases "convertToImages env p d w") (simp add: convert_and_print_def)

lemma extract_and_convert_tool_fails:
  assumes "resolve_range s0 e0 totalPages = (s, e)"
  shows "js_strict_neq s (Num 1) \<or> js_strict_neq e totalPages \<Longrightarrow>
           \<not> succeeded (spawn_result env ''pdftk'' (pdftk_args input s e d)) \<Longrightarrow>
           \<exists>err. fst (extract_and_convert env d input s0 e0 totalPages w) = Throw err"
    and "fst (convertToImages env
           (if js_strict_neq s (Num 1) \<or> js_strict_neq e totalPages then extract_path d s e
            else input) d w) = Inl err \<Longrightarrow>
         js_strict_neq s (Num 1) \<or> js_strict_neq e totalPages \<longrightarrow>
           succeeded (spawn_result env ''pdftk'' (pdftk_args input s e d)) \<Longrightarrow>
         fst (extract_and_convert env d input s0 e0 totalPages w) = Throw err"
proof -
  let ?w1 = "logger_info env ''Start processing from page %1 to page %2''
               [string_of_jsnum s, string_of_jsnum e] w"
  obtain x w2 where ex: "extractPages env input s e d ?w1 = (x, w2)"
    by (cases "extractPages env input s e d ?w1")
  have ok: "(\<not> isl x) = succeeded (spawn_result env ''pdftk'' (pdftk_args input s e d))"
    using extractPages_ok(1) [of env input s e d ?w1] ex by simp
  show "\<exists>err. fst (extract_and_convert env d input s0 e0 totalPages w) = Throw err"
    if "js_strict_neq s (Num 1) \<or> js_strict_neq e totalPages"
      and "\<not> succeeded (spawn_result env ''pdftk'' (pdftk_args input s e d))"
  proof -
    from that(2) ok obtain err where "x = Inl err"
      by (cases x) simp_all
    with assms that(1) ex show ?thesis
      by (simp add: extract_and_convert_def)
  qed
  show "fst (extract_and_convert env d input s0 e0 totalPages w) = Throw err"
    if r: "fst (convertToImages env
           (if js_strict_neq s (Num 1) \<or> js_strict_neq e totalPages then extract_path d s e
            else input) d w) = Inl err"
      and t: "js_strict_neq s (Num 1) \<or> js_strict_neq e totalPages \<longrightarrow>
           succeeded (spawn_result env ''pdftk'' (pdftk_args input s e d))"
  proof (cases "js_strict_neq s (Num 1) \<or> js_strict_neq e totalPages")
    case False
    have "fst (convertToImages env input d ?w1) = Inl err"
      using r False convertToImages_fst [of env input d ?w1 w] by simp
    with assms False show ?thesis
      by (simp add: extract_and_convert_def convert_and_print_raster_fails)
  next
    case True
    with t ok obtain extractPath where x: "x = Inr extractPath"
      by (cases x) simp_all
    have path: "extractPath = extract_path d s e"
      using extractPages_ok(2) [of env input s e d ?w1 extractPath] ex x by simp
    let ?w3 = "logger_info env ''Extract pages to %1'' [extractPath] w2"
    have "fst (convertToImages env extractPath d ?w3) = Inl err"
      using r True path convertToImages_fst [of env extractPath d ?w3 w] by simp
    with assms True ex x show ?thesis
      by (simp add: extract_and_convert_def convert_and_print_raster_fails)
  qed
qed

lemma main_tool_fails:
  assumes "argv env \<noteq> []" and "stdin_data env \<noteq> []"
  shows "fst (getTotalPages env (input_pdf env) (start_world env)) = Inl err \<Longrightarrow>
           fst (main env) = Unhandled err"
    and "fst (getTotalPages env (input_pdf env) (start_world env)) = Inr totalPages \<Longrightarrow>
         resolve_range (fst (parse_args (argv env))) (snd (parse_args (argv env))) totalPages =
           (s, e) \<Longrightarrow>
         (s, e) \<noteq> (Num 1, totalPages) \<Longrightarrow>
         \<not> succeeded (spawn_result env ''pdftk'' (pdftk_args (input_pdf env) s e (working_dir env))) \<Longrightarrow>
         \<exists>err'. fst (main env) = Unhandled err'"
    and "fst (getTotalPages env (input_pdf env) (start_world env)) = Inr totalPages \<Longrightarrow>
         resolve_range (fst (parse_args (argv env))) (snd (parse_args (argv env))) totalPages =
           (s, e) \<Longrightarrow>
         (s, e) \<noteq> (Num 1, totalPages) \<longrightarrow>
           succeeded (spawn_result env ''pdftk'' (pdftk_args (input_pdf env) s e (working_dir env))) \<Longrightarrow>
         fst (convertToImages env
           (if (s, e) = (Num 1, totalPages) then input_pdf env
            else extract_path (working_dir env) s e)
           (working_dir env) (start_world env)) = Inl err \<Longrightarrow>
         fst (main env) = Unhandled err"
proof -
  let ?d = "working_dir env"
  let ?input = "input_pdf env"
  let ?w2 = "writeFileSync ?input (stdin_data env)
               (mkdirSync ?d ((start_world env)\<lparr>ticks := Suc 0\<rparr>))"
  obtain r w3 where g: "getTotalPages env ?input ?w2 = (r, w3)"
    by (cases "getTotalPages env ?input ?w2")
  have r: "fst (getTotalPages env ?input (start_world env)) = r"
    using getTotalPages_fst [of env ?input "start_world env" ?w2] unfolding g by simp
  have pi: "process_input env (fst (parse_args (argv env))) (snd (parse_args (argv env)))
              (start_world env) =
            (case r of
               Inl e \<Rightarrow> (Throw e, w3)
             | Inr totalPages \<Rightarrow>
                 extract_and_convert env ?d ?input (fst (parse_args (argv env)))
                   (snd (parse_args (argv env))) totalPages w3)"
    using g by (simp add: process_input_def now_def Let_def working_dir_def input_pdf_def
        split: sum.splits)
  show "fst (main env) = Unhandled err"
    if "fst (getTotalPages env ?input (start_world env)) = Inl err"
    using that r unfolding main_fst [OF assms] pi by simp
  show "\<exists>err'. fst (main env) = Unhandled err'"
    if p: "fst (getTotalPages env ?input (start_world env)) = Inr totalPages"
      and rg: "resolve_range (fst (parse_args (argv env))) (snd (parse_args (argv env)))
                 totalPages = (s, e)"
      and ne: "(s, e) \<noteq> (Num 1, totalPages)"
      and f: "\<not> succeeded (spawn_result env ''pdftk'' (pdftk_args ?input s e ?d))"
  proof -
    obtain n where n: "totalPages = Num (int n)"
      using getTotalPages_Num [OF p] by blast
    have neq: "js_strict_neq s (Num 1) \<or> js_strict_neq e totalPages"
      using ne by (auto simp: n js_strict_neq_Num)
    from extract_and_convert_tool_fails(1) [OF rg neq f, of w3]
    show ?thesis
      using p r unfolding main_fst [OF assms] pi by auto
  qed
  show "fst (main env) = Unhandled err"
    if p: "fst (getTotalPages env ?input (start_world env)) = Inr totalPages"
      and rg: "resolve_range (fst (parse_args (argv env))) (snd (parse_args (argv env)))
                 totalPages = (s, e)"
      and t: "(s, e) \<noteq> (Num 1, totalPages) \<longrightarrow>
           succeeded (spawn_result env ''pdftk'' (pdftk_args ?input s e ?d))"
      and c: "fst (convertToImages env
           (if (s, e) = (Num 1, totalPages) then ?input else extract_path ?d s e)
           ?d (start_world env)) = Inl err"
  proof -
    obtain n where n: "totalPages = Num (int n)"
      using getTotalPages_Num [OF p] by blast
    have whole: "(js_strict_neq s (Num 1) \<or> js_strict_neq e totalPages) =
                 ((s, e) \<noteq> (Num 1, totalPages))"
      by (auto simp: n js_strict_neq_Num)
    have c': "fst (convertToImages env
           (if js_strict_neq s (Num 1) \<or> js_strict_neq e totalPages then extract_path ?d s e
            else ?input) ?d w3) = Inl err"
      using c convertToImages_fst [of env _ ?d w3 "start_world env"] unfolding whole
      by (auto split: if_splits)
    have t': "js_strict_neq s (Num 1) \<or> js_strict_neq e totalPages \<longrightarrow>
           succeeded (spawn_result env ''pdftk'' (pdftk_args ?input s e ?d))"
      using t whole by blast
    from extract_and_convert_tool_fails(2) [OF rg c' t']
    show ?thesis
      using p r unfolding main_fst [OF assms] pi by auto
  qed
qed

subsection \<open>Unfolding a concrete run\<close>

lemmas run_defs =
  main_def process_input_def extract_and_convert_def convert_and_print_def
  convertToImages_def extractPages_def getTotalPages_def spawn_def
  convertImageToMarkdown_def completion_def make_client_def env_or_def
  LLMClient_completion_def user_content_def has_images_def build_request_def extract_text_def
  retry_loop.simps parse_args_def parseInt_def resolve_range_def js_strict_neq_def
  output_dir_def path_join_def pdftk_args_def pdftoppm_args_def page_range_arg_def
  extract_path_def ends_with_def js_sort_def normalize_path_def
  is_js_space_def is_digit_def digit_value_def digits_value_def
  string_of_nat.simps digit_char_def now_def logger_info_def logger_error_def
  mkdirSync_def writeFileSync_def rmSync_def emit_def emit_all_def sleep_def
  js_replace_def start_world_def Let_def inside_def working_dir_def input_pdf_def
  succeeded_def string_of_code_def

lemmas example_defs =
  scenario_env_def whole_document_env_def pdfinfo_fails_env_def rejected_range_env_def
  pdftoppm_killed_env_def no_key_env_def

lemmas path_defs =
  working_dir_def input_pdf_def output_dir_def path_join_def pdftk_args_def pdftoppm_args_def
  page_range_arg_def extract_path_def succeeded_def string_of_nat.simps digit_char_def

lemma tool_runs_whole:
  "tool_runs env d input (Num 1) (Num n) (Num n) = [(''pdftoppm'', pdftoppm_args input d)]"
  by (simp add: tool_runs_def js_strict_neq_def)

lemma tool_runs_part:
  "(s, e) \<noteq> (Num 1, Num n) \<Longrightarrow>
   tool_runs env d input s e (Num n) =
     (''pdftk'', pdftk_args input s e d)
     # (if succeeded (spawn_result env ''pdftk'' (pdftk_args input s e d))
        then [(''pdftoppm'', pdftoppm_args (extract_path d s e) d)] else [])"
  by (auto simp: tool_runs_def js_strict_neq_Num)

lemma scenario_trace:
  "trace (snd (main scenario_env)) =
     [Mkdir ''output/2024-01-02T030405678Z'',
      WriteFile ''output/2024-01-02T030405678Z/input.pdf'' ''%PDF-1.4'',
      Spawn ''pdfinfo'' [''output/2024-01-02T030405678Z/input.pdf''],
      ConsoleInfo ''2024-01-02T03:04:05.678Z - INFO - Start processing from page 2 to page 3'',
      Spawn ''pdftk''
        [''output/2024-01-02T030405678Z/input.pdf'', ''cat'', ''2-3'', ''output'',
         ''output/2024-01-02T030405678Z/extract_2_3.pdf''],
      ConsoleInfo ''2024-01-02T03:04:05.678Z - INFO - Extract pages to output/2024-01-02T030405678Z/extract_2_3.pdf'',
      Mkdir ''output/2024-01-02T030405678Z/images'',
      Spawn ''pdftoppm''
        [''-jpeg'', ''-r'', ''300'', ''output/2024-01-02T030405678Z/extract_2_3.pdf'',
         ''output/2024-01-02T030405678Z/images/page''],
      ReadDir ''output/2024-01-02T030405678Z/images'',
      ConsoleInfo ''2024-01-02T03:04:05.678Z - INFO - Image conversion completed'',
      ConsoleInfo ''2024-01-02T03:04:05.678Z - INFO - Converting image output/2024-01-02T030405678Z/images/page-1.jpg to Markdown'',
      ReadFile ''output/2024-01-02T030405678Z/images/page-1.jpg'',
      HttpPost (scenario_request ''2''),
      ConsoleInfo (''2024-01-02T03:04:05.678Z - INFO - Markdown info # Page 2'' @ [NL, NL, NL]),
      ConsoleInfo ''2024-01-02T03:04:05.678Z - INFO - Converting image output/2024-01-02T030405678Z/images/page-2.jpg to Markdown'',
      ReadFile ''output/2024-01-02T030405678Z/images/page-2.jpg'',
      HttpPost (scenario_request ''3''),
      ConsoleInfo (''2024-01-02T03:04:05.678Z - INFO - Markdown info '' @ scenario_markdown),
      ConsoleInfo ''2024-01-02T03:04:05.678Z - INFO - Image conversion to Markdown completed'',
      ConsoleLog scenario_markdown,
      RmTree ''output/2024-01-02T030405678Z'']"
  by (simp add: run_defs example_defs scenario_markdown_def scenario_request_def)

lemma scenario_exit: "fst (main scenario_env) = Exited 0"
  by (simp add: run_defs example_defs)

subsection \<open>Facts about the example runs\<close>

lemma flaky_key: "env_or (OPENAI_API_KEY flaky_env) [] \<noteq> []"
  by (simp add: flaky_env_def env_or_def)

lemma flaky_fails:
  "j < 2 \<Longrightarrow> isl (fst (LLMClient_completion flaky_env cl j msg [] None temp maxTok))"
  by (simp add: LLMClient_completion_def user_content_def has_images_def flaky_env_def Let_def)

lemma flaky_succeeds:
  "2 \<le> n \<Longrightarrow>
     fst (LLMClient_completion flaky_env cl n msg [] None temp maxTok) = Inr (Str ''# Title'')"
  by (simp add: LLMClient_completion_def user_content_def has_images_def flaky_env_def Let_def
        extract_text_def)

lemma first_page_fails_key: "env_or (OPENAI_API_KEY first_page_fails_env) [] \<noteq> []"
  by (simp add: first_page_fails_env_def env_or_def)

lemma first_page_fails_early:
  "n < 3 \<Longrightarrow> isl (fst (LLMClient_completion first_page_fails_env cl n msg sys (Some [p]) temp maxTok))"
  by (simp add: LLMClient_completion_def user_content_def has_images_def first_page_fails_env_def
      Let_def)

lemma first_page_fails_late:
  "3 \<le> n \<Longrightarrow>
     fst (LLMClient_completion first_page_fails_env cl n msg sys (Some [p]) temp maxTok) =
       Inr (Str ''# Page 2'')"
  by (simp add: LLMClient_completion_def user_content_def has_images_def first_page_fails_env_def
      Let_def extract_text_def)

section \<open>Properties\<close>

text \<open>
  Claim C1, as amended. For a page count of at least one and integer bounds: a range with
  \<open>1 \<le> start \<le> end \<le> totalPages\<close> is returned unchanged; a start outside
  \<open>[1, totalPages]\<close> becomes 1; an end that is 0 or greater than \<open>totalPages\<close> becomes
  \<open>totalPages\<close>; a negative end is returned unchanged.
\<close>

theorem resolve_range_clamps:
  assumes "1 \<le> totalPages"
  shows "(1 \<le> s \<and> s \<le> e \<and> e \<le> totalPages \<longrightarrow>
            resolve_range (Num s) (Num e) (Num totalPages) = (Num s, Num e))
       \<and> (s < 1 \<or> totalPages < s \<longrightarrow>
            fst (resolve_range (Num s) (Num e) (Num totalPages)) = Num 1)
       \<and> (e = 0 \<or> totalPages < e \<longrightarrow>
            snd (resolve_range (Num s) (Num e) (Num totalPages)) = Num totalPages)
       \<and> (e < 0 \<longrightarrow>
            snd (resolve_range (Num s) (Num e) (Num totalPages)) = Num e)"
  using assms by (auto simp: resolve_range_def)

theorem resolve_range_clamps_witness:
  "(1::int) \<le> 5
   \<and> resolve_range (Num 2) (Num 4) (Num 5) = (Num 2, Num 4)
   \<and> fst (resolve_range (Num 0) (Num 4) (Num 5)) = Num 1
   \<and> fst (resolve_range (Num 6) (Num 4) (Num 5)) = Num 1
   \<and> snd (resolve_range (Num 2) (Num 0) (Num 5)) = Num 5
   \<and> snd (resolve_range (Num 2) (Num 9) (Num 5)) = Num 5
   \<and> snd (resolve_range (Num 2) (Num (- 3)) (Num 5)) = Num (- 3)"
proof -
  have h: "(1::int) \<le> 5" by simp
  show ?thesis
    using resolve_range_clamps [OF h, of 2 4] resolve_range_clamps [OF h, of 0 4]
      resolve_range_clamps [OF h, of 6 4] resolve_range_clamps [OF h, of 2 0]
      resolve_range_clamps [OF h, of 2 9] resolve_range_clamps [OF h, of 2 "- 3"]
    by simp
qed

text \<open>
  The claim as written also sends every out-of-bounds end to \<open>totalPages\<close>. The end
  \<open>-1\<close> is out of bounds for a three-page document and stays \<open>-1\<close>.
\<close>

theorem resolve_range_negative_end_counterexample:
  "\<not> (1 \<le> (- 1 :: int) \<and> (- 1 :: int) \<le> 3)
   \<and> snd (resolve_range (Num 1) (Num (- 1)) (Num 3)) = Num (- 1)
   \<and> snd (resolve_range (Num 1) (Num (- 1)) (Num 3)) \<noteq> Num 3"
  by (simp add: resolve_range_def)

text \<open>
  Claim C2, as amended. Once the working directory exists (arguments given, input not
  empty), it is removed recursively when the run completes with exit code 0: neither the
  directory nor any path below it is left. It is removed only then: after any other outcome
  the directory and the saved input are still there, and so they are when the page-count
  query, the extraction or the rasterization fails.
\<close>

theorem working_dir_removed_on_success_only:
  assumes "argv env \<noteq> []" and "stdin_data env \<noteq> []"
  shows "(fst (main env) = Exited 0 \<longrightarrow>
            (\<forall>q\<in>fs (snd (main env)). \<not> inside (working_dir env) q))
       \<and> (fst (main env) \<noteq> Exited 0 \<longrightarrow>
            working_dir env \<in> fs (snd (main env)) \<and> input_pdf env \<in> fs (snd (main env)))
       \<and> (\<forall>err. fst (getTotalPages env (input_pdf env) (start_world env)) = Inl err \<longrightarrow>
            working_dir env \<in> fs (snd (main env)) \<and> input_pdf env \<in> fs (snd (main env)))
       \<and> (\<forall>totalPages s e.
            fst (getTotalPages env (input_pdf env) (start_world env)) = Inr totalPages
            \<and> resolve_range (fst (parse_args (argv env))) (snd (parse_args (argv env)))
                 totalPages = (s, e)
            \<and> (s, e) \<noteq> (Num 1, totalPages)
            \<and> \<not> succeeded (spawn_result env ''pdftk''
                   (pdftk_args (input_pdf env) s e (working_dir env))) \<longrightarrow>
            working_dir env \<in> fs (snd (main env)) \<and> input_pdf env \<in> fs (snd (main env)))
       \<and> (\<forall>totalPages s e err.
            fst (getTotalPages env (input_pdf env) (start_world env)) = Inr totalPages
            \<and> resolve_range (fst (parse_args (argv env))) (snd (parse_args (argv env)))
                 totalPages = (s, e)
            \<and> ((s, e) \<noteq> (Num 1, totalPages) \<longrightarrow>
                 succeeded (spawn_result env ''pdftk''
                   (pdftk_args (input_pdf env) s e (working_dir env))))
            \<and> fst (convertToImages env
                 (if (s, e) = (Num 1, totalPages) then input_pdf env
                  else extract_path (working_dir env) s e)
                 (working_dir env) (start_world env)) = Inl err \<longrightarrow>
            working_dir env \<in> fs (snd (main env)) \<and> input_pdf env \<in> fs (snd (main env)))"
proof -
  have kept: "working_dir env \<in> fs (snd (main env)) \<and> input_pdf env \<in> fs (snd (main env))"
    if "fst (main env) = Unhandled err" for err
    using main_fs [OF assms] that by simp
  have "\<forall>q\<in>fs (snd (main env)). \<not> inside (working_dir env) q" if "fst (main env) = Exited 0"
    using main_clears(1) [OF assms that] .
  moreover have "fst (main env) \<noteq> Exited 0 \<longrightarrow>
      working_dir env \<in> fs (snd (main env)) \<and> input_pdf env \<in> fs (snd (main env))"
    using main_fs [OF assms] by blast
  ultimately show ?thesis
    using main_tool_fails [OF assms] kept by blast
qed

theorem working_dir_removed_on_success_only_witness:
  "argv scenario_env \<noteq> [] \<and> stdin_data scenario_env \<noteq> []
   \<and> fst (main scenario_env) = Exited 0
   \<and> working_dir scenario_env \<notin> fs (snd (main scenario_env))
   \<and> input_pdf scenario_env \<notin> fs (snd (main scenario_env))
   \<and> path_join (working_dir scenario_env) ''images'' \<notin> fs (snd (main scenario_env))
   \<and> fst (main no_key_env) = Exited 1
   \<and> working_dir no_key_env \<in> fs (snd (main no_key_env))
   \<and> input_pdf no_key_env \<in> fs (snd (main no_key_env))
   \<and> fst (getTotalPages pdfinfo_fails_env (input_pdf pdfinfo_fails_env)
            (start_world pdfinfo_fails_env)) =
       Inl (Error ''Error'' ''pdfinfo exited with code 1'')
   \<and> working_dir pdfinfo_fails_env \<in> fs (snd (main pdfinfo_fails_env))
   \<and> input_pdf pdfinfo_fails_env \<in> fs (snd (main pdfinfo_fails_env))
   \<and> fst (getTotalPages (rejected_range_env [''2'', ''3''])
            (input_pdf (rejected_range_env [''2'', ''3'']))
            (start_world (rejected_range_env [''2'', ''3'']))) = Inr (Num 3)
   \<and> resolve_range (fst (parse_args [''2'', ''3''])) (snd (parse_args [''2'', ''3''])) (Num 3) =
       (Num 2, Num 3)
   \<and> \<not> succeeded (spawn_result (rejected_range_env [''2'', ''3'']) ''pdftk''
         (pdftk_args (input_pdf (rejected_range_env [''2'', ''3''])) (Num 2) (Num 3)
            (working_dir (rejected_range_env [''2'', ''3'']))))
   \<and> working_dir (rejected_range_env [''2'', ''3''])
       \<in> fs (snd (main (rejected_range_env [''2'', ''3''])))
   \<and> input_pdf (rejected_range_env [''2'', ''3''])
       \<in> fs (snd (main (rejected_range_env [''2'', ''3''])))
   \<and> fst (getTotalPages pdftoppm_killed_env (input_pdf pdftoppm_killed_env)
            (start_world pdftoppm_killed_env)) = Inr (Num 3)
   \<and> succeeded (spawn_result pdftoppm_killed_env ''pdftk''
         (pdftk_args (input_pdf pdftoppm_killed_env) (Num 2) (Num 3)
            (working_dir pdftoppm_killed_env)))
   \<and> fst (convertToImages pdftoppm_killed_env
            (extract_path (working_dir pdftoppm_killed_env) (Num 2) (Num 3))
            (working_dir pdftoppm_killed_env) (start_world pdftoppm_killed_env)) =
       Inl (Error ''Error'' ''pdftoppm exited with code null'')
   \<and> working_dir pdftoppm_killed_env \<in> fs (snd (main pdftoppm_killed_env))
   \<and> input_pdf pdftoppm_killed_env \<in> fs (snd (main pdftoppm_killed_env))"
proof -
  have a: "argv scenario_env \<noteq> []" "stdin_data scenario_env \<noteq> []"
    by (simp_all add: scenario_env_def)
  have b: "argv no_key_env \<noteq> []" "stdin_data no_key_env \<noteq> []"
    by (simp_all add: example_defs)
  have c: "argv pdfinfo_fails_env \<noteq> []" "stdin_data pdfinfo_fails_env \<noteq> []"
    by (simp_all add: example_defs)
  have d: "argv (rejected_range_env [''2'', ''3'']) \<noteq> []"
    "stdin_data (rejected_range_env [''2'', ''3'']) \<noteq> []"
    by (simp_all add: example_defs)
  have e: "argv pdftoppm_killed_env \<noteq> []" "stdin_data pdftoppm_killed_env \<noteq> []"
    by (simp_all add: example_defs)
  have out: "fst (main scenario_env) = Exited 0" "fst (main no_key_env) = Exited 1"
    by (simp_all add: run_defs example_defs)
  have ins: "inside (working_dir scenario_env) (working_dir scenario_env)"
    "inside (working_dir scenario_env) (input_pdf scenario_env)"
    "inside (working_dir scenario_env) (path_join (working_dir scenario_env) ''images'')"
    by (simp_all add: inside_def input_pdf_def path_join_def)
  have pc: "fst (getTotalPages pdfinfo_fails_env (input_pdf pdfinfo_fails_env)
            (start_world pdfinfo_fails_env)) =
       Inl (Error ''Error'' ''pdfinfo exited with code 1'')"
    by (simp add: run_defs example_defs)
  have ex: "fst (getTotalPages (rejected_range_env [''2'', ''3''])
            (input_pdf (rejected_range_env [''2'', ''3'']))
            (start_world (rejected_range_env [''2'', ''3'']))) = Inr (Num 3)"
    "resolve_range (fst (parse_args (argv (rejected_range_env [''2'', ''3''])))) 
       (snd (parse_args (argv (rejected_range_env [''2'', ''3''])))) (Num 3) = (Num 2, Num 3)"
    "resolve_range (fst (parse_args [''2'', ''3''])) (snd (parse_args [''2'', ''3''])) (Num 3) =
       (Num 2, Num 3)"
    "\<not> succeeded (spawn_result (rejected_range_env [''2'', ''3'']) ''pdftk''
         (pdftk_args (input_pdf (rejected_range_env [''2'', ''3''])) (Num 2) (Num 3)
            (working_dir (rejected_range_env [''2'', ''3'']))))"
    by (simp_all add: run_defs example_defs)
  have ra: "fst (getTotalPages pdftoppm_killed_env (input_pdf pdftoppm_killed_env)
            (start_world pdftoppm_killed_env)) = Inr (Num 3)"
    "resolve_range (fst (parse_args (argv pdftoppm_killed_env)))
       (snd (parse_args (argv pdftoppm_killed_env))) (Num 3) = (Num 2, Num 3)"
    "succeeded (spawn_result pdftoppm_killed_env ''pdftk''
         (pdftk_args (input_pdf pdftoppm_killed_env) (Num 2) (Num 3)
            (working_dir pdftoppm_killed_env)))"
    "fst (convertToImages pdftoppm_killed_env
            (extract_path (working_dir pdftoppm_killed_env) (Num 2) (Num 3))
            (working_dir pdftoppm_killed_env) (start_world pdftoppm_killed_env)) =
       Inl (Error ''Error'' ''pdftoppm exited with code null'')"
    by (simp_all add: run_defs example_defs)
  note t1 = working_dir_removed_on_success_only [OF a, THEN conjunct1, THEN mp, OF out(1)]
  note t2 = working_dir_removed_on_success_only [OF b, THEN conjunct2, THEN conjunct1]
  note t3 = working_dir_removed_on_success_only [OF c, THEN conjunct2, THEN conjunct2,
      THEN conjunct1, THEN spec, THEN mp, OF pc]
  note t4 = working_dir_removed_on_success_only [OF d, THEN conjunct2, THEN conjunct2,
      THEN conjunct2, THEN conjunct1, THEN spec, THEN spec, THEN spec, THEN mp,
      of "Num 3" "Num 2" "Num 3"]
  note t5 = working_dir_removed_on_success_only [OF e, THEN conjunct2, THEN conjunct2,
      THEN conjunct2, THEN conjunct2, THEN spec, THEN spec, THEN spec, THEN spec, THEN mp,
      of "Num 3" "Num 2" "Num 3" "Error ''Error'' ''pdftoppm exited with code null''"]
  have k4: "working_dir (rejected_range_env [''2'', ''3''])
       \<in> fs (snd (main (rejected_range_env [''2'', ''3''])))
     \<and> input_pdf (rejected_range_env [''2'', ''3''])
       \<in> fs (snd (main (rejected_range_env [''2'', ''3''])))"
    using t4 ex(1,2,4) by simp
  have k5: "working_dir pdftoppm_killed_env \<in> fs (snd (main pdftoppm_killed_env))
     \<and> input_pdf pdftoppm_killed_env \<in> fs (snd (main pdftoppm_killed_env))"
    using t5 ra by simp
  have k1: "working_dir scenario_env \<notin> fs (snd (main scenario_env))"
    "input_pdf scenario_env \<notin> fs (snd (main scenario_env))"
    "path_join (working_dir scenario_env) ''images'' \<notin> fs (snd (main scenario_env))"
    using t1 ins by blast+
  show ?thesis
    using a out k1 t2 t3 pc ex(1,3,4) k4 ra(1,3,4) k5 by simp
qed

text \<open>
  The claim as written has the directory removed after a failure too. When the page-count
  query exits with code 1, the run ends with the unhandled error and the directory stays.
\<close>

theorem working_dir_kept_after_failure_counterexample:
  "fst (main pdfinfo_fails_env) = Unhandled (Error ''Error'' ''pdfinfo exited with code 1'')
   \<and> working_dir pdfinfo_fails_env = ''output/2024-01-02T030405678Z''
   \<and> working_dir pdfinfo_fails_env \<in> fs (snd (main pdfinfo_fails_env))"
  by (simp add: run_defs example_defs)

text \<open>
  Claim C3, as amended. In the scenario the run queries the page count, extracts the pages
  2 to 3, rasterizes the extracted document, transcribes the two images in page order, and
  passes exactly the Markdown \<^verbatim>\<open># Page 2\n\n\n# Page 3\n\n\n\<close> to \<^verbatim>\<open>console.log\<close>. Standard
  output holds the eight lines of \<^verbatim>\<open>logger.info\<close> first, then that Markdown and the newline
  \<^verbatim>\<open>console.log\<close> adds. The run exits with code 0 and the working directory is gone.
\<close>

theorem scenario_run:
  "fst (main scenario_env) = Exited 0
   \<and> spawns_of (trace (snd (main scenario_env))) =
       [(''pdfinfo'', [''output/2024-01-02T030405678Z/input.pdf'']),
        (''pdftk'',
         [''output/2024-01-02T030405678Z/input.pdf'', ''cat'', ''2-3'', ''output'',
          ''output/2024-01-02T030405678Z/extract_2_3.pdf'']),
        (''pdftoppm'',
         [''-jpeg'', ''-r'', ''300'', ''output/2024-01-02T030405678Z/extract_2_3.pdf'',
          ''output/2024-01-02T030405678Z/images/page''])]
   \<and> posts_of (trace (snd (main scenario_env))) = [scenario_request ''2'', scenario_request ''3'']
   \<and> [s. ConsoleLog s \<leftarrow> trace (snd (main scenario_env))] = [scenario_markdown]
   \<and> stdout_of (trace (snd (main scenario_env))) =
       concat (map (\<lambda>line. ''2024-01-02T03:04:05.678Z - INFO - '' @ line @ [NL])
         [''Start processing from page 2 to page 3'',
          ''Extract pages to output/2024-01-02T030405678Z/extract_2_3.pdf'',
          ''Image conversion completed'',
          ''Converting image output/2024-01-02T030405678Z/images/page-1.jpg to Markdown'',
          ''Markdown info # Page 2'' @ [NL, NL, NL],
          ''Converting image output/2024-01-02T030405678Z/images/page-2.jpg to Markdown'',
          ''Markdown info '' @ scenario_markdown,
          ''Image conversion to Markdown completed''])
       @ scenario_markdown @ [NL]
   \<and> working_dir scenario_env \<notin> fs (snd (main scenario_env))"
proof -
  have a: "argv scenario_env \<noteq> []" "stdin_data scenario_env \<noteq> []"
    by (simp_all add: scenario_env_def)
  have "working_dir scenario_env \<notin> fs (snd (main scenario_env))"
    using main_fs [OF a] scenario_exit by simp
  then show ?thesis
    using scenario_exit by (simp add: scenario_trace)
qed

text \<open>
  The claim as written has standard output equal to the Markdown alone. It starts with a log
  line and ends with one more newline.
\<close>

theorem scenario_stdout_counterexample:
  "stdout_of (trace (snd (main scenario_env))) \<noteq>
     ''# Page 2'' @ [NL, NL, NL] @ ''# Page 3'' @ [NL, NL, NL]
   \<and> take 34 (stdout_of (trace (snd (main scenario_env)))) = ''2024-01-02T03:04:05.678Z - INFO - ''"
  by (simp add: scenario_trace)

text \<open>
  Claim C4. When the API key is set and the three client calls made for a page image all
  fail, the transcription of the page returns the empty string without throwing, and the loop
  goes on with the remaining images from the Markdown extended by exactly the empty string
  and the separator of two newlines.
\<close>

theorem failed_page_contributes_separator:
  assumes "env_or (OPENAI_API_KEY env) [] \<noteq> []"
    and "\<forall>j<3. isl (fst (LLMClient_completion env (make_client env ''gemini-1.5-pro'')
            (calls w + j) userPrompt [] (Some [normalize_path imgPath]) (3 / 10) 8192))"
  shows "fst (convertImageToMarkdown env (normalize_path imgPath)
               (logger_info env ''Converting image %1 to Markdown'' [normalize_path imgPath] w))
           = Return (Str [])
       \<and> (\<exists>w'. calls w' = calls w + 3 \<and> fs w' = fs w
              \<and> transcribe_loop env (imgPath # rest) markdown w =
                  transcribe_loop env rest (markdown @ [] @ [NL, NL]) w')"
proof -
  let ?p = "normalize_path imgPath"
  let ?w1 = "logger_info env ''Converting image %1 to Markdown'' [?p] w"
  note run = transcribe_loop_failed_page [OF assms]
  define W where
    "W = logger_info env ''Markdown info %1'' [markdown @ [] @ [NL, NL]]
           (snd (convertImageToMarkdown env ?p ?w1))"
  have step: "transcribe_loop env (imgPath # rest) markdown w =
              transcribe_loop env rest (markdown @ [] @ [NL, NL]) W"
    unfolding transcribe_loop.simps Let_def W_def run by simp
  have frame: "calls W = calls w + 3" "fs W = fs w"
    unfolding W_def run by simp_all
  have res: "fst (convertImageToMarkdown env ?p ?w1) = Return (Str [])"
    unfolding run by simp
  from res frame step show ?thesis
    by blast
qed

theorem failed_page_contributes_separator_witness:
  "env_or (OPENAI_API_KEY first_page_fails_env) [] \<noteq> []
   \<and> fst (transcribe_loop first_page_fails_env
            [''output/T0/images/page-1.jpg'', ''output/T0/images/page-2.jpg''] ''# Title''
            (start_world first_page_fails_env))
       = Return (''# Title'' @ [NL, NL] @ ''# Page 2'' @ [NL, NL])"
proof -
  let ?env = first_page_fails_env
  let ?w = "start_world ?env"
  have fails: "\<forall>j<3. isl (fst (LLMClient_completion ?env (make_client ?env ''gemini-1.5-pro'')
        (calls ?w + j) userPrompt [] (Some [normalize_path ''output/T0/images/page-1.jpg''])
        (3 / 10) 8192))"
    by (simp add: first_page_fails_early start_world_def)
  from failed_page_contributes_separator [OF first_page_fails_key fails,
      of "[''output/T0/images/page-2.jpg'']" "''# Title''"]
  obtain w' where w': "calls w' = calls ?w + 3"
    and step: "transcribe_loop ?env
        [''output/T0/images/page-1.jpg'', ''output/T0/images/page-2.jpg''] ''# Title'' ?w =
      transcribe_loop ?env [''output/T0/images/page-2.jpg''] (''# Title'' @ [] @ [NL, NL]) w'"
    by blast
  have c: "calls w' = 3"
    using w' by (simp add: start_world_def)
  have second: "fst (transcribe_loop ?env [''output/T0/images/page-2.jpg'']
                  (''# Title'' @ [] @ [NL, NL]) w')
                = Return (''# Title'' @ [NL, NL] @ ''# Page 2'' @ [NL, NL])"
    using first_page_fails_key
    by (simp add: Let_def convertImageToMarkdown_def completion_with_key
        retry_loop_success c first_page_fails_late)
  show ?thesis
    unfolding step using first_page_fails_key second by simp
qed

text \<open>
  Claim C5. With the API key set, \<^verbatim>\<open>completion\<close> makes at most \<open>retryTimes\<close> client calls
  and always returns a value, never an error. When every call fails it returns the empty
  string, and the trace holds, for each call, the client's effects, the logged failure and a
  wait of 500 ms. When the call number \<open>k\<close> is the first to succeed, its response is
  returned at once: the trace holds the \<open>k\<close> failures, each with its log line and its wait,
  then the effects of the successful call and nothing more. The transcription call uses
  the default of three attempts.
\<close>

theorem completion_retry_contract:
  assumes "env_or (OPENAI_API_KEY env) [] \<noteq> []"
  shows
    "(let cl = make_client env model_arg;
          run = completion env msg model_arg sys imgs temp maxTok retryTimes w;
          attempt = (\<lambda>n. LLMClient_completion env cl n msg sys imgs temp maxTok);
          failures = failed_attempts env cl msg sys imgs temp maxTok (calls w) (ticks w)
      in calls (snd run) \<le> calls w + retryTimes
       \<and> (\<exists>s. fst run = Return s)
       \<and> ((\<forall>j<retryTimes. isl (fst (attempt (calls w + j)))) \<longrightarrow>
            run = (Return (Str []),
                   w\<lparr>trace := trace w @ failures retryTimes,
                     ticks := ticks w + retryTimes, calls := calls w + retryTimes\<rparr>))
       \<and> (\<forall>k response.
             k < retryTimes \<and> (\<forall>j<k. isl (fst (attempt (calls w + j))))
             \<and> fst (attempt (calls w + k)) = Inr response \<longrightarrow>
             run = (Return response,
                    w\<lparr>trace := trace w @ failures k @ snd (attempt (calls w + k)),
                      ticks := ticks w + k, calls := calls w + Suc k\<rparr>)))
     \<and> calls (snd (convertImageToMarkdown env imagePath w)) \<le> calls w + 3"
proof -
  let ?cl = "make_client env model_arg"
  let ?loop = "retry_loop env ?cl msg sys imgs temp maxTok retryTimes"
  have run: "completion env msg model_arg sys imgs temp maxTok retryTimes w =
             (Return (fst (?loop 0 w)), snd (?loop 0 w))"
    using assms by (rule completion_with_key)
  have bound: "calls (snd (?loop 0 w)) \<le> calls w + retryTimes"
    using retry_loop_calls [of env ?cl msg sys imgs temp maxTok retryTimes 0 w] by simp
  have all_fail: "?loop 0 w =
        (Str [], w\<lparr>trace := trace w @ failed_attempts env ?cl msg sys imgs temp maxTok (calls w) (ticks w) retryTimes,
                   ticks := ticks w + retryTimes, calls := calls w + retryTimes\<rparr>)"
    if "\<forall>j<retryTimes. isl (fst (LLMClient_completion env ?cl (calls w + j) msg sys imgs temp maxTok))"
    using retry_loop_failures [OF that, of 0 retryTimes]
    by (simp add: retry_loop.simps [of _ _ _ _ _ _ _ retryTimes retryTimes])
  have success: "?loop 0 w =
        (response, w\<lparr>trace := trace w @ failed_attempts env ?cl msg sys imgs temp maxTok (calls w) (ticks w) k
                        @ snd (LLMClient_completion env ?cl (calls w + k) msg sys imgs temp maxTok),
                      ticks := ticks w + k, calls := calls w + Suc k\<rparr>)"
    if k: "k < retryTimes"
      and f: "\<forall>j<k. isl (fst (LLMClient_completion env ?cl (calls w + j) msg sys imgs temp maxTok))"
      and ok: "fst (LLMClient_completion env ?cl (calls w + k) msg sys imgs temp maxTok) = Inr response"
    for k response
  proof -
    have le: "0 + k \<le> retryTimes" using k by simp
    obtain evs where c: "LLMClient_completion env ?cl (calls w + k) msg sys imgs temp maxTok = (Inr response, evs)"
      using ok by (cases "LLMClient_completion env ?cl (calls w + k) msg sys imgs temp maxTok") simp
    show ?thesis
      using k c
      by (simp add: retry_loop_failures [OF f le] retry_loop.simps [of _ _ _ _ _ _ _ retryTimes k]
            emit_all_def)
  qed
  have c1: "calls (snd (completion env msg model_arg sys imgs temp maxTok retryTimes w))
              \<le> calls w + retryTimes"
    using bound by (simp add: run)
  have c2: "\<exists>s. fst (completion env msg model_arg sys imgs temp maxTok retryTimes w) = Return s"
    by (simp add: run)
  have c3: "(\<forall>j<retryTimes. isl (fst (LLMClient_completion env ?cl (calls w + j) msg sys imgs temp maxTok))) \<longrightarrow>
            completion env msg model_arg sys imgs temp maxTok retryTimes w =
              (Return (Str []),
               w\<lparr>trace := trace w @ failed_attempts env ?cl msg sys imgs temp maxTok (calls w) (ticks w) retryTimes,
                 ticks := ticks w + retryTimes, calls := calls w + retryTimes\<rparr>)"
    using all_fail by (simp add: run)
  have c4: "\<forall>k response.
             k < retryTimes \<and> (\<forall>j<k. isl (fst (LLMClient_completion env ?cl (calls w + j) msg sys imgs temp maxTok)))
             \<and> fst (LLMClient_completion env ?cl (calls w + k) msg sys imgs temp maxTok) = Inr response \<longrightarrow>
             completion env msg model_arg sys imgs temp maxTok retryTimes w =
               (Return response,
                w\<lparr>trace := trace w @ failed_attempts env ?cl msg sys imgs temp maxTok (calls w) (ticks w) k
                          @ snd (LLMClient_completion env ?cl (calls w + k) msg sys imgs temp maxTok),
                  ticks := ticks w + k, calls := calls w + Suc k\<rparr>)"
  proof (intro allI impI)
    fix k response
    assume a: "k < retryTimes \<and> (\<forall>j<k. isl (fst (LLMClient_completion env ?cl (calls w + j) msg sys imgs temp maxTok)))
             \<and> fst (LLMClient_completion env ?cl (calls w + k) msg sys imgs temp maxTok) = Inr response"
    from a have k: "k < retryTimes" by blast
    from a have f: "\<forall>j<k. isl (fst (LLMClient_completion env ?cl (calls w + j) msg sys imgs temp maxTok))" by blast
    from a have ok: "fst (LLMClient_completion env ?cl (calls w + k) msg sys imgs temp maxTok) = Inr response" by blast
    show "completion env msg model_arg sys imgs temp maxTok retryTimes w =
               (Return response,
                w\<lparr>trace := trace w @ failed_attempts env ?cl msg sys imgs temp maxTok (calls w) (ticks w) k
                          @ snd (LLMClient_completion env ?cl (calls w + k) msg sys imgs temp maxTok),
                  ticks := ticks w + k, calls := calls w + Suc k\<rparr>)"
      by (simp add: run success [OF k f ok])
  qed
  have c5: "calls (snd (convertImageToMarkdown env imagePath w)) \<le> calls w + 3"
    using assms
      retry_loop_calls [of env "make_client env ''gemini-1.5-pro''" userPrompt "[]"
        "Some [imagePath]" "3 / 10" 8192 3 0 w]
    by (simp add: convertImageToMarkdown_def completion_with_key)
  show ?thesis
    unfolding Let_def using c1 c2 c3 c4 c5 by blast
qed

theorem completion_retry_contract_witness:
  "env_or (OPENAI_API_KEY flaky_env) [] \<noteq> []
   \<and> fst (completion flaky_env ''hi'' [] [] None (1 / 2) 8192 3 (start_world flaky_env))
       = Return (Str ''# Title'')
   \<and> calls (snd (completion flaky_env ''hi'' [] [] None (1 / 2) 8192 3 (start_world flaky_env))) = 3
   \<and> sleeps_of (trace (snd (completion flaky_env ''hi'' [] [] None (1 / 2) 8192 3
        (start_world flaky_env)))) = [500, 500]
   \<and> fst (completion flaky_env ''hi'' [] [] None (1 / 2) 8192 2 (start_world flaky_env))
       = Return (Str [])
   \<and> calls (snd (completion flaky_env ''hi'' [] [] None (1 / 2) 8192 2 (start_world flaky_env))) = 2
   \<and> sleeps_of (trace (snd (completion flaky_env ''hi'' [] [] None (1 / 2) 8192 2
        (start_world flaky_env)))) = [500, 500]"
proof -
  let ?w = "start_world flaky_env"
  let ?cl = "make_client flaky_env []"
  have w0: "calls ?w = 0" "ticks ?w = 0" "trace ?w = []"
    by (simp_all add: start_world_def)
  have fails: "\<forall>j<2. isl (fst (LLMClient_completion flaky_env ?cl (calls ?w + j) ''hi'' [] None (1 / 2) 8192))"
    by (simp add: flaky_fails w0)
  have ok: "fst (LLMClient_completion flaky_env ?cl (calls ?w + 2) ''hi'' [] None (1 / 2) 8192) = Inr (Str ''# Title'')"
    by (simp add: flaky_succeeds w0)
  have lt: "(2::nat) < 3" by simp
  note run3 =
    completion_retry_contract [OF flaky_key, of "[]" "''hi''" "[]" None "1 / 2" 8192 3 ?w,
      unfolded Let_def, THEN conjunct1, THEN conjunct2, THEN conjunct2, THEN conjunct2, rule_format,
      of 2 "Str ''# Title''", OF conjI [OF lt conjI [OF fails ok]]]
  note run2 =
    completion_retry_contract [OF flaky_key, of "[]" "''hi''" "[]" None "1 / 2" 8192 2 ?w,
      unfolded Let_def, THEN conjunct1, THEN conjunct2, THEN conjunct2, THEN conjunct1, THEN mp, OF fails]
  show ?thesis
    unfolding run3 run2 using flaky_key by (simp add: w0 numeral_2_eq_2)
qed

text \<open>
  Claim C6, checked at a response whose first part has no \<^verbatim>\<open>text\<close> property: the client
  returns \<^verbatim>\<open>undefined\<close>, not the empty string, and the page contributes the text
  \<^verbatim>\<open>undefined\<close> to the Markdown.
\<close>

theorem client_returns_undefined_for_absent_text:
  "extract_text (Some (Data (Some [Candidate (Some (Content (Some [Part None])))]))) = Undefined
   \<and> fst (LLMClient_completion no_text_env (make_client no_text_env ''gemini-1.5-pro'') 0
             userPrompt [] (Some [''output/T0/images/page-1.jpg'']) (3 / 10) 8192) = Inr Undefined
   \<and> Undefined \<noteq> Str []
   \<and> fst (transcribe_loop no_text_env [''output/T0/images/page-1.jpg''] [] (start_world no_text_env))
       = Return (''undefined'' @ [NL, NL])"
  by (simp add: extract_text_def LLMClient_completion_def user_content_def has_images_def
      no_text_env_def Let_def convertImageToMarkdown_def completion_def env_or_def
      retry_loop.simps start_world_def emit_all_def split: prod.splits)

text \<open>
  Claim C7. For a run that reaches the page count: when the resolved range is
  \<open>(1, totalPages)\<close> the extraction tool is never started and the rasterization tool is
  started on the saved input; when it is not, the extraction tool is started on the saved
  input with that range, and the rasterization tool is started, once the extraction has
  succeeded, on the extracted document and on nothing else.
\<close>

theorem extraction_only_for_partial_range:
  assumes "argv env \<noteq> []" and "stdin_data env \<noteq> []"
    and "fst (getTotalPages env (input_pdf env) (start_world env)) = Inr totalPages"
    and "resolve_range (fst (parse_args (argv env))) (snd (parse_args (argv env))) totalPages =
           (startPage, endPage)"
  shows "((startPage, endPage) = (Num 1, totalPages) \<longrightarrow>
            spawns_of (trace (snd (main env))) =
              [(''pdfinfo'', [input_pdf env]),
               (''pdftoppm'', pdftoppm_args (input_pdf env) (working_dir env))])
       \<and> ((startPage, endPage) \<noteq> (Num 1, totalPages) \<longrightarrow>
            spawns_of (trace (snd (main env))) =
              [(''pdfinfo'', [input_pdf env]),
               (''pdftk'', pdftk_args (input_pdf env) startPage endPage (working_dir env))]
              @ (if succeeded (spawn_result env ''pdftk''
                                 (pdftk_args (input_pdf env) startPage endPage (working_dir env)))
                 then [(''pdftoppm'',
                        pdftoppm_args (extract_path (working_dir env) startPage endPage)
                          (working_dir env))]
                 else []))"
proof -
  obtain n where n: "totalPages = Num (int n)"
    using getTotalPages_Num [OF assms(3)] by blast
  have sp: "spawns_of (trace (snd (main env))) =
            (''pdfinfo'', [input_pdf env])
            # tool_runs env (working_dir env) (input_pdf env) startPage endPage totalPages"
    using main_spawns [OF assms(1,2)] assms(3,4) by simp
  show ?thesis
    unfolding sp n using tool_runs_whole tool_runs_part by simp
qed

theorem extraction_only_for_partial_range_witness:
  "spawns_of (trace (snd (main whole_document_env))) =
     [(''pdfinfo'', [''output/2024-01-02T030405678Z/input.pdf'']),
      (''pdftoppm'',
       [''-jpeg'', ''-r'', ''300'', ''output/2024-01-02T030405678Z/input.pdf'',
        ''output/2024-01-02T030405678Z/images/page''])]
   \<and> spawns_of (trace (snd (main scenario_env))) =
     [(''pdfinfo'', [''output/2024-01-02T030405678Z/input.pdf'']),
      (''pdftk'',
       [''output/2024-01-02T030405678Z/input.pdf'', ''cat'', ''2-3'', ''output'',
        ''output/2024-01-02T030405678Z/extract_2_3.pdf'']),
      (''pdftoppm'',
       [''-jpeg'', ''-r'', ''300'', ''output/2024-01-02T030405678Z/extract_2_3.pdf'',
        ''output/2024-01-02T030405678Z/images/page''])]"
proof -
  have a: "argv whole_document_env \<noteq> []" "stdin_data whole_document_env \<noteq> []"
    "fst (getTotalPages whole_document_env (input_pdf whole_document_env)
            (start_world whole_document_env)) = Inr (Num 3)"
    "resolve_range (fst (parse_args (argv whole_document_env)))
       (snd (parse_args (argv whole_document_env))) (Num 3) = (Num 1, Num 3)"
    by (simp_all add: run_defs example_defs)
  have b: "argv scenario_env \<noteq> []" "stdin_data scenario_env \<noteq> []"
    "fst (getTotalPages scenario_env (input_pdf scenario_env) (start_world scenario_env)) =
       Inr (Num 3)"
    "resolve_range (fst (parse_args (argv scenario_env))) (snd (parse_args (argv scenario_env)))
       (Num 3) = (Num 2, Num 3)"
    by (simp_all add: run_defs example_defs)
  show ?thesis
    using extraction_only_for_partial_range [OF a] extraction_only_for_partial_range [OF b]
    by (simp add: path_defs example_defs)
qed

text \<open>
  Claim C8. Every request the transcription of an image posts carries the model
  \<^verbatim>\<open>gemini-1.5-pro\<close>, the temperature 0.3 and 8192 as \<^verbatim>\<open>max_tokens\<close>, whatever
  \<^verbatim>\<open>OPENAI_DEFAULT_MODEL\<close> holds; the variable names the model only of a call that passes no
  model.
\<close>

theorem vision_call_parameters:
  "(\<exists>ps. posts_of (trace (snd (convertImageToMarkdown env imagePath w))) = posts_of (trace w) @ ps
        \<and> (\<forall>r\<in>set ps. payload_model r = ''gemini-1.5-pro''
               \<and> payload_temperature r = 3 / 10
               \<and> payload_max_tokens r = 8192
               \<and> url r = env_or (OPENAI_API_BASE env)
                            ''https://generativelanguage.googleapis.com/v1beta/openai/''
                          @ ''models/gemini-1.5-pro:generateContent''))
   \<and> (\<exists>ps. posts_of (trace (snd (completion env msg [] sys imgs temp maxTok rt w))) =
              posts_of (trace w) @ ps
        \<and> (\<forall>r\<in>set ps. payload_model r = env_or (OPENAI_DEFAULT_MODEL env) ''gemini-1.5-pro''))"
proof
  show "\<exists>ps. posts_of (trace (snd (convertImageToMarkdown env imagePath w))) = posts_of (trace w) @ ps
        \<and> (\<forall>r\<in>set ps. payload_model r = ''gemini-1.5-pro''
               \<and> payload_temperature r = 3 / 10
               \<and> payload_max_tokens r = 8192
               \<and> url r = env_or (OPENAI_API_BASE env)
                            ''https://generativelanguage.googleapis.com/v1beta/openai/''
                          @ ''models/gemini-1.5-pro:generateContent'')"
    using completion_posts [of env userPrompt "''gemini-1.5-pro''" "[]" "Some [imagePath]" "3 / 10" 8192 3 w]
    by (simp add: convertImageToMarkdown_def make_client_def)
  from completion_posts [of env msg "[]" sys imgs temp maxTok rt w]
  obtain ps where ps: "posts_of (trace (snd (completion env msg [] sys imgs temp maxTok rt w))) =
      posts_of (trace w) @ ps"
    "\<forall>r\<in>set ps. payload_model r = model (make_client env [])"
    by blast
  have "model (make_client env []) = env_or (OPENAI_DEFAULT_MODEL env) ''gemini-1.5-pro''"
    by (simp add: make_client_def)
  with ps show "\<exists>ps. posts_of (trace (snd (completion env msg [] sys imgs temp maxTok rt w))) =
              posts_of (trace w) @ ps
        \<and> (\<forall>r\<in>set ps. payload_model r = env_or (OPENAI_DEFAULT_MODEL env) ''gemini-1.5-pro'')"
    by auto
qed

theorem vision_call_parameters_witness:
  "OPENAI_DEFAULT_MODEL flaky_env = Some ''other-model''
   \<and> map payload_model
        (posts_of (trace (snd (convertImageToMarkdown flaky_env ''output/T0/images/page-1.jpg''
           (start_world flaky_env)))))
      = [''gemini-1.5-pro'', ''gemini-1.5-pro'', ''gemini-1.5-pro'']
   \<and> map payload_temperature
        (posts_of (trace (snd (convertImageToMarkdown flaky_env ''output/T0/images/page-1.jpg''
           (start_world flaky_env)))))
      = [3 / 10, 3 / 10, 3 / 10]
   \<and> map payload_max_tokens
        (posts_of (trace (snd (convertImageToMarkdown flaky_env ''output/T0/images/page-1.jpg''
           (start_world flaky_env)))))
      = [8192, 8192, 8192]
   \<and> map payload_model
        (posts_of (trace (snd (completion flaky_env ''hi'' [] [] None (1 / 2) 8192 1
           (start_world flaky_env)))))
      = [''other-model'']"
  using vision_call_parameters [of flaky_env "''output/T0/images/page-1.jpg''" "start_world flaky_env"
      "''hi''" "[]" None "1 / 2" 8192 1]
  by (simp add: LLMClient_completion_def user_content_def has_images_def build_request_def
      flaky_env_def Let_def convertImageToMarkdown_def completion_def env_or_def make_client_def
      retry_loop.simps start_world_def emit_all_def sleep_def logger_error_def now_def emit_def
      split: prod.splits)

text \<open>
  Claim C9, as amended. When a page argument does not parse, its bound is \<^verbatim>\<open>NaN\<close>, passes
  every comparison of the range resolution unchanged, and makes the run take the extraction
  branch: the extraction tool is started, right after the page-count query, with the range
  written from the two resolved bounds, \<^verbatim>\<open>NaN\<close> standing for each unparsable one. The
  range is \<^verbatim>\<open>NaN-NaN\<close> when both bounds are \<^verbatim>\<open>NaN\<close>, which takes two unparsable
  arguments.
\<close>

theorem unparsable_bound_reaches_extraction:
  assumes "argv env \<noteq> []" and "stdin_data env \<noteq> []"
    and "fst (getTotalPages env (input_pdf env) (start_world env)) = Inr totalPages"
    and "parse_args (argv env) = (startPage0, endPage0)"
    and "startPage0 = NaN \<or> endPage0 = NaN"
    and "resolve_range startPage0 endPage0 totalPages = (startPage, endPage)"
  shows "(startPage0 = NaN \<longrightarrow>
            1 < length (argv env) \<and> parseInt (argv env ! 0) = NaN
            \<and> \<not> js_lt startPage0 (Num 1) \<and> \<not> js_gt startPage0 totalPages \<and> startPage = NaN)
       \<and> (endPage0 = NaN \<longrightarrow>
            \<not> js_strict_eq endPage0 (Num 0) \<and> \<not> js_gt endPage0 totalPages \<and> endPage = NaN)
       \<and> (js_strict_neq startPage (Num 1) \<or> js_strict_neq endPage totalPages)
       \<and> take 2 (spawns_of (trace (snd (main env)))) =
            [(''pdfinfo'', [input_pdf env]),
             (''pdftk'',
              [input_pdf env, ''cat'', string_of_jsnum startPage @ ''-'' @ string_of_jsnum endPage,
               ''output'', extract_path (working_dir env) startPage endPage])]
       \<and> (startPage0 = NaN \<and> endPage0 = NaN \<longrightarrow>
            string_of_jsnum startPage @ ''-'' @ string_of_jsnum endPage = ''NaN-NaN'')"
proof -
  have s: "startPage0 = NaN \<longrightarrow> startPage = NaN"
    and e: "endPage0 = NaN \<longrightarrow> endPage = NaN"
    using assms(6) by (auto simp: resolve_range_def)
  have parse: "startPage0 = NaN \<longrightarrow> 1 < length (argv env) \<and> parseInt (argv env ! 0) = NaN"
    using assms(4) by (auto simp: parse_args_def split: if_splits)
  have neq: "js_strict_neq startPage (Num 1) \<or> js_strict_neq endPage totalPages"
    using assms(5) s e by (auto simp: js_strict_neq_def)
  have sp: "spawns_of (trace (snd (main env))) =
            (''pdfinfo'', [input_pdf env])
            # tool_runs env (working_dir env) (input_pdf env) startPage endPage totalPages"
    using main_spawns [OF assms(1,2)] assms(3,4,6) by simp
  have "take 2 (spawns_of (trace (snd (main env)))) =
            [(''pdfinfo'', [input_pdf env]),
             (''pdftk'', pdftk_args (input_pdf env) startPage endPage (working_dir env))]"
    unfolding sp using neq by (simp add: tool_runs_def)
  then show ?thesis
    using s e parse neq by (auto simp: pdftk_args_def page_range_arg_def)
qed

theorem unparsable_bound_reaches_extraction_witness:
  "parse_args (argv (rejected_range_env [''abc'', ''def''])) = (NaN, NaN)
   \<and> resolve_range NaN NaN (Num 3) = (NaN, NaN)
   \<and> take 2 (spawns_of (trace (snd (main (rejected_range_env [''abc'', ''def''])))))
       = [(''pdfinfo'', [''output/2024-01-02T030405678Z/input.pdf'']),
          (''pdftk'',
           [''output/2024-01-02T030405678Z/input.pdf'', ''cat'', ''NaN-NaN'', ''output'',
            ''output/2024-01-02T030405678Z/extract_NaN_NaN.pdf''])]"
proof -
  let ?env = "rejected_range_env [''abc'', ''def'']"
  have a: "argv ?env \<noteq> []" "stdin_data ?env \<noteq> []"
    "fst (getTotalPages ?env (input_pdf ?env) (start_world ?env)) = Inr (Num 3)"
    "parse_args (argv ?env) = (NaN, NaN)"
    "NaN = NaN \<or> NaN = NaN"
    "resolve_range NaN NaN (Num 3) = (NaN, NaN)"
    by (simp_all add: run_defs example_defs)
  show ?thesis
    using unparsable_bound_reaches_extraction [OF a] a(4,6)
    by (simp add: path_defs example_defs)
qed

text \<open>
  The claim as written has the range \<^verbatim>\<open>NaN-NaN\<close> whenever an argument does not parse. A
  single unparsable argument is the end page of a range that starts at 1.
\<close>

theorem single_unparsable_argument_counterexample:
  "parseInt ''abc'' = NaN
   \<and> spawns_of (trace (snd (main (rejected_range_env [''abc'']))))
       = [(''pdfinfo'', [''output/2024-01-02T030405678Z/input.pdf'']),
          (''pdftk'',
           [''output/2024-01-02T030405678Z/input.pdf'', ''cat'', ''1-NaN'', ''output'',
            ''output/2024-01-02T030405678Z/extract_1_NaN.pdf''])]
   \<and> ''1-NaN'' \<noteq> ''NaN-NaN''"
  by (simp add: run_defs example_defs)

text \<open>
  Claim C10. With the API key unset (or empty), arguments given, input not empty, a page
  count obtained, the extraction (when the range asks for one) and the rasterization
  succeeding and at least one image produced: the run exits with code 1; the working
  directory and the saved input are on disk at the end; the tools were started as in a run
  with the key (page-count query, extraction when needed, rasterization); no request was
  posted and no client call made; and the last effect of the run is the error line of the
  missing key, the only line on standard error.
\<close>

theorem missing_key_exits_at_first_transcription:
  assumes "argv env \<noteq> []" and "stdin_data env \<noteq> []"
    and "env_or (OPENAI_API_KEY env) [] = []"
    and "fst (getTotalPages env (input_pdf env) (start_world env)) = Inr totalPages"
    and "resolve_range (fst (parse_args (argv env))) (snd (parse_args (argv env))) totalPages =
           (startPage, endPage)"
    and "(startPage, endPage) \<noteq> (Num 1, totalPages) \<longrightarrow>
           succeeded (spawn_result env ''pdftk''
             (pdftk_args (input_pdf env) startPage endPage (working_dir env)))"
    and "fst (convertToImages env
           (if (startPage, endPage) = (Num 1, totalPages) then input_pdf env
            else extract_path (working_dir env) startPage endPage)
           (working_dir env) (start_world env)) = Inr imgPaths"
    and "imgPaths \<noteq> []"
  shows "fst (main env) = Exited 1
       \<and> working_dir env \<in> fs (snd (main env))
       \<and> input_pdf env \<in> fs (snd (main env))
       \<and> spawns_of (trace (snd (main env))) =
            (''pdfinfo'', [input_pdf env])
            # (if (startPage, endPage) = (Num 1, totalPages) then []
               else [(''pdftk'', pdftk_args (input_pdf env) startPage endPage (working_dir env))])
            @ [(''pdftoppm'',
                pdftoppm_args
                  (if (startPage, endPage) = (Num 1, totalPages) then input_pdf env
                   else extract_path (working_dir env) startPage endPage)
                  (working_dir env))]
       \<and> posts_of (trace (snd (main env))) = []
       \<and> calls (snd (main env)) = 0
       \<and> (\<exists>before stamp.
             trace (snd (main env)) =
               before @ [ConsoleError
                 (stamp @ '' - ERROR - Please set the OPENAI_API_KEY environment variables'')]
             \<and> stderr_of before = [])"
proof -
  obtain n where n: "totalPages = Num (int n)"
    using getTotalPages_Num [OF assms(4)] by blast
  have whole: "(js_strict_neq startPage (Num 1) \<or> js_strict_neq endPage totalPages) =
               ((startPage, endPage) \<noteq> (Num 1, totalPages))"
    by (auto simp: n js_strict_neq_Num)
  have extraction: "js_strict_neq startPage (Num 1) \<or> js_strict_neq endPage totalPages \<Longrightarrow>
      succeeded (spawn_result env ''pdftk''
        (pdftk_args (input_pdf env) startPage endPage (working_dir env)))"
    using assms(6) whole by blast
  have raster: "fst (convertToImages env
        (if js_strict_neq startPage (Num 1) \<or> js_strict_neq endPage totalPages
         then extract_path (working_dir env) startPage endPage else input_pdf env)
        (working_dir env) (start_world env)) = Inr imgPaths"
    using assms(7) unfolding whole by (auto split: if_splits)
  from main_without_key [OF assms(1,2,3,4,5) extraction raster assms(8)]
  obtain w0 where w0:
    "main env =
       (Exited 1, logger_error env ''Please set the OPENAI_API_KEY environment variables'' w0)"
    "posts_of (trace w0) = []" "stderr_of (trace w0) = []" "calls w0 = 0"
    by blast
  have exit: "fst (main env) = Exited 1"
    by (simp add: w0(1))
  have files: "working_dir env \<in> fs (snd (main env))" "input_pdf env \<in> fs (snd (main env))"
    using main_fs [OF assms(1,2)] exit by simp_all
  have sp: "spawns_of (trace (snd (main env))) =
            (''pdfinfo'', [input_pdf env])
            # tool_runs env (working_dir env) (input_pdf env) startPage endPage totalPages"
    using main_spawns [OF assms(1,2)] assms(4,5) by simp
  have tools: "tool_runs env (working_dir env) (input_pdf env) startPage endPage totalPages =
        (if (startPage, endPage) = (Num 1, totalPages) then []
         else [(''pdftk'', pdftk_args (input_pdf env) startPage endPage (working_dir env))])
        @ [(''pdftoppm'',
            pdftoppm_args
              (if (startPage, endPage) = (Num 1, totalPages) then input_pdf env
               else extract_path (working_dir env) startPage endPage)
              (working_dir env))]"
    using assms(6) whole by (auto simp: tool_runs_def)
  have last: "\<exists>before stamp.
        trace (snd (main env)) =
          before @ [ConsoleError
            (stamp @ '' - ERROR - Please set the OPENAI_API_KEY environment variables'')]
        \<and> stderr_of before = []"
    using w0(3) by (simp add: w0(1))
  show ?thesis
    using exit files sp tools last w0(2,4) by (simp add: w0(1))
qed

theorem missing_key_exits_at_first_transcription_witness:
  "env_or (OPENAI_API_KEY no_key_env) [] = []
   \<and> fst (main no_key_env) = Exited 1
   \<and> ''output/2024-01-02T030405678Z'' \<in> fs (snd (main no_key_env))
   \<and> ''output/2024-01-02T030405678Z/input.pdf'' \<in> fs (snd (main no_key_env))
   \<and> spawns_of (trace (snd (main no_key_env))) =
       [(''pdfinfo'', [''output/2024-01-02T030405678Z/input.pdf'']),
        (''pdftk'',
         [''output/2024-01-02T030405678Z/input.pdf'', ''cat'', ''2-3'', ''output'',
          ''output/2024-01-02T030405678Z/extract_2_3.pdf'']),
        (''pdftoppm'',
         [''-jpeg'', ''-r'', ''300'', ''output/2024-01-02T030405678Z/extract_2_3.pdf'',
          ''output/2024-01-02T030405678Z/images/page''])]
   \<and> posts_of (trace (snd (main no_key_env))) = []"
proof -
  let ?env = no_key_env
  have a: "argv ?env \<noteq> []" "stdin_data ?env \<noteq> []" "env_or (OPENAI_API_KEY ?env) [] = []"
    "fst (getTotalPages ?env (input_pdf ?env) (start_world ?env)) = Inr (Num 3)"
    "resolve_range (fst (parse_args (argv ?env))) (snd (parse_args (argv ?env))) (Num 3) =
       (Num 2, Num 3)"
    "(Num 2, Num 3) \<noteq> (Num 1, Num 3) \<longrightarrow>
       succeeded (spawn_result ?env ''pdftk''
         (pdftk_args (input_pdf ?env) (Num 2) (Num 3) (working_dir ?env)))"
    "fst (convertToImages ?env
           (if (Num 2, Num 3) = (Num 1, Num 3) then input_pdf ?env
            else extract_path (working_dir ?env) (Num 2) (Num 3))
           (working_dir ?env) (start_world ?env)) =
       Inr [''output/2024-01-02T030405678Z/images/page-2.jpg'',
            ''output/2024-01-02T030405678Z/images/page-1.jpg'']"
    "[''output/2024-01-02T030405678Z/images/page-2.jpg'',
      ''output/2024-01-02T030405678Z/images/page-1.jpg''] \<noteq> []"
    by (simp_all add: run_defs example_defs)
  show ?thesis
    using missing_key_exits_at_first_transcription [OF a] a(3)
    by (simp add: path_defs example_defs)
qed

end
